theory Spec2Isabelle
  imports Complex_Main "HOL-Library.Word"
begin

section \<open>The native call surface of \<^verbatim>\<open>src/zig.ts\<close>\<close>

text \<open>
  \<^verbatim>\<open>zig.ts\<close> binds the rendering engine through \<^verbatim>\<open>bun:ffi\<close>. The class
  \<^verbatim>\<open>FFIRenderLib\<close> holds the table \<^verbatim>\<open>this.opentui.symbols\<close> returned by \<^verbatim>\<open>dlopen\<close>
  and every method marshals its arguments and calls one or more of these symbols.

  The engine behind the symbols is not part of the file. It enters the model as a
  parameter: a record of functions over an engine state \<open>'s\<close>, one field per symbol
  that the modelled methods call, with the argument order of the \<^verbatim>\<open>dlopen\<close> table
  (lines 34-192). A symbol that returns \<^verbatim>\<open>void\<close> maps the engine state to the next
  one; a symbol that allocates returns its pointer together with the next state; a
  getter reads the state.

  A \<^verbatim>\<open>Pointer\<close> is an address; the null pointer is \<open>0\<close>, the one value for which the
  test \<^verbatim>\<open>!ptr\<close> of the source holds. Sizes, ids and attribute bytes are JavaScript
  numbers with natural values (\<open>nat\<close>), coordinates are integer valued (\<open>int\<close>);
  the products \<^verbatim>\<open>width * height\<close> and \<^verbatim>\<open>size * 4 * 4\<close> of the source are exact on such
  values as long as they stay below \<open>2^53\<close>, and are modelled without that bound. The
  conversion of a number to the declared FFI width (\<^verbatim>\<open>u32\<close>, \<^verbatim>\<open>i32\<close>, \<^verbatim>\<open>u8\<close>) is done
  by \<^verbatim>\<open>bun:ffi\<close> inside the call and belongs to the symbol.
\<close>

type_synonym pointer = nat

type_synonym float32array = "real list"

text \<open>\<^verbatim>\<open>RGBA\<close> (from \<^verbatim>\<open>./types\<close>): the binding only reads its field \<^verbatim>\<open>buffer\<close>.\<close>

record RGBA =
  rgba_buffer :: float32array

record 's symbols =
  sym_createRenderer :: "nat \<Rightarrow> nat \<Rightarrow> 's \<Rightarrow> pointer \<times> 's"
  sym_getNextBuffer :: "pointer \<Rightarrow> 's \<Rightarrow> pointer \<times> 's"
  sym_getCurrentBuffer :: "pointer \<Rightarrow> 's \<Rightarrow> pointer \<times> 's"
  sym_createOptimizedBuffer :: "nat \<Rightarrow> nat \<Rightarrow> bool \<Rightarrow> 's \<Rightarrow> pointer \<times> 's"
  sym_drawFrameBuffer ::
    "pointer \<Rightarrow> int \<Rightarrow> int \<Rightarrow> pointer \<Rightarrow> nat \<Rightarrow> nat \<Rightarrow> nat \<Rightarrow> nat \<Rightarrow> 's \<Rightarrow> 's"
  sym_getBufferWidth :: "pointer \<Rightarrow> 's \<Rightarrow> nat"
  sym_getBufferHeight :: "pointer \<Rightarrow> 's \<Rightarrow> nat"
  sym_bufferGetCharPtr :: "pointer \<Rightarrow> 's \<Rightarrow> pointer"
  sym_bufferGetFgPtr :: "pointer \<Rightarrow> 's \<Rightarrow> pointer"
  sym_bufferGetBgPtr :: "pointer \<Rightarrow> 's \<Rightarrow> pointer"
  sym_bufferGetAttributesPtr :: "pointer \<Rightarrow> 's \<Rightarrow> pointer"
  sym_bufferDrawText ::
    "pointer \<Rightarrow> 8 word list \<Rightarrow> nat \<Rightarrow> int \<Rightarrow> int \<Rightarrow> float32array \<Rightarrow>
     float32array option \<Rightarrow> nat \<Rightarrow> 's \<Rightarrow> 's"
  sym_bufferSetCellWithAlphaBlending ::
    "pointer \<Rightarrow> int \<Rightarrow> int \<Rightarrow> nat \<Rightarrow> float32array \<Rightarrow> float32array \<Rightarrow> nat \<Rightarrow> 's \<Rightarrow> 's"
  sym_bufferFillRect :: "pointer \<Rightarrow> int \<Rightarrow> int \<Rightarrow> int \<Rightarrow> int \<Rightarrow> float32array \<Rightarrow> 's \<Rightarrow> 's"
  sym_bufferResize :: "pointer \<Rightarrow> nat \<Rightarrow> nat \<Rightarrow> 's \<Rightarrow> 's"
  sym_bufferDrawSuperSampleBuffer ::
    "pointer \<Rightarrow> int \<Rightarrow> int \<Rightarrow> pointer \<Rightarrow> nat \<Rightarrow> nat \<Rightarrow> nat \<Rightarrow> 's \<Rightarrow> 's"
  sym_addToHitGrid :: "pointer \<Rightarrow> int \<Rightarrow> int \<Rightarrow> nat \<Rightarrow> nat \<Rightarrow> nat \<Rightarrow> 's \<Rightarrow> 's"
  sym_checkHit :: "pointer \<Rightarrow> int \<Rightarrow> int \<Rightarrow> 's \<Rightarrow> nat"
  sym_clearHitGrid :: "pointer \<Rightarrow> 's \<Rightarrow> 's"

subsection \<open>JavaScript operators used by the methods\<close>

text \<open>
  An optional parameter that the caller omits is \<^verbatim>\<open>undefined\<close>: \<open>None\<close>.
  \<^verbatim>\<open>a ?? d\<close> (nullish coalescing) is \<open>d\<close> exactly when \<open>a\<close> is \<^verbatim>\<open>undefined\<close> or
  \<^verbatim>\<open>null\<close>; a present value is kept even when it is \<open>0\<close>.
\<close>

fun nullish :: "'a option \<Rightarrow> 'a \<Rightarrow> 'a" where
  "nullish None d = d"
| "nullish (Some v) d = v"

subsection \<open>Frame-buffer blit and supersample draw (lines 466-485, 562-577)\<close>

definition drawFrameBuffer ::
  "'s symbols \<Rightarrow> pointer \<Rightarrow> int \<Rightarrow> int \<Rightarrow> pointer \<Rightarrow>
   nat option \<Rightarrow> nat option \<Rightarrow> nat option \<Rightarrow> nat option \<Rightarrow> 's \<Rightarrow> 's" where
  "drawFrameBuffer lib targetBufferPtr destX destY bufferPtr sourceX sourceY sourceWidth sourceHeight s =
     (let srcX = nullish sourceX 0;
          srcY = nullish sourceY 0;
          srcWidth = nullish sourceWidth 0;
          srcHeight = nullish sourceHeight 0
      in sym_drawFrameBuffer lib targetBufferPtr destX destY bufferPtr srcX srcY srcWidth srcHeight s)"

text \<open>The parameter type \<^verbatim>\<open>"bgra8unorm" | "rgba8unorm"\<close> is a closed union of two tags.\<close>

datatype pixel_format = Bgra8unorm | Rgba8unorm

definition bufferDrawSuperSampleBuffer ::
  "'s symbols \<Rightarrow> pointer \<Rightarrow> int \<Rightarrow> int \<Rightarrow> pointer \<Rightarrow> nat \<Rightarrow> pixel_format \<Rightarrow> nat \<Rightarrow> 's \<Rightarrow> 's" where
  "bufferDrawSuperSampleBuffer lib buffer x y pixelDataPtr pixelDataLength format alignedBytesPerRow s =
     (let formatId = (if format = Bgra8unorm then 0 else 1)
      in sym_bufferDrawSuperSampleBuffer lib buffer x y pixelDataPtr pixelDataLength formatId
           alignedBytesPerRow s)"

subsection \<open>Errors, array buffers and typed-array views\<close>

text \<open>
  A \<^verbatim>\<open>throw new Error(msg)\<close> of the source is the value \<open>Inl (Error msg)\<close>; a method
  that can throw returns \<open>error + 'a\<close>. \<^verbatim>\<open>toArrayBuffer(ptr, byteOffset, byteLength)\<close>
  of \<^verbatim>\<open>bun:ffi\<close> exposes \<open>byteLength\<close> bytes of native memory at \<open>ptr + byteOffset\<close>.
  A typed array constructed over an array buffer has as many elements as the
  buffer's byte length divided by the element width, and the constructor throws a
  \<^verbatim>\<open>RangeError\<close> when the byte length is not a multiple of that width. The contents
  of the memory are not modelled: the views alias memory owned by the engine.
  \<open>DlopenError path\<close> stands for whatever \<^verbatim>\<open>dlopen\<close> throws when it cannot load the
  library at \<open>path\<close>.
\<close>

datatype error = Error string | RangeError string | DlopenError string

record ArrayBuffer =
  ab_address :: pointer
  ab_byteLength :: nat

definition toArrayBuffer :: "pointer \<Rightarrow> nat \<Rightarrow> nat \<Rightarrow> ArrayBuffer" where
  "toArrayBuffer ptr byteOffset byteLength =
     \<lparr>ab_address = ptr + byteOffset, ab_byteLength = byteLength\<rparr>"

datatype element_type = Uint32 | Float32 | Uint8

fun BYTES_PER_ELEMENT :: "element_type \<Rightarrow> nat" where
  "BYTES_PER_ELEMENT Uint32 = 4"
| "BYTES_PER_ELEMENT Float32 = 4"
| "BYTES_PER_ELEMENT Uint8 = 1"

record TypedArray =
  ta_type :: element_type
  ta_buffer :: ArrayBuffer
  ta_length :: nat

definition new_TypedArray :: "element_type \<Rightarrow> ArrayBuffer \<Rightarrow> error + TypedArray" where
  "new_TypedArray ty buffer =
     (if ab_byteLength buffer mod BYTES_PER_ELEMENT ty \<noteq> 0
      then Inl (RangeError ''buffer length is not a multiple of the element width'')
      else Inr \<lparr>ta_type = ty, ta_buffer = buffer,
                ta_length = ab_byteLength buffer div BYTES_PER_ELEMENT ty\<rparr>)"

subsection \<open>Buffers (lines 296-298, 320-374, 507-520, 543-556)\<close>

text \<open>The object \<^verbatim>\<open>{ char, fg, bg, attributes }\<close> returned by \<^verbatim>\<open>getBuffer\<close>.\<close>

record buffers =
  buf_char :: TypedArray
  buf_fg :: TypedArray
  buf_bg :: TypedArray
  buf_attributes :: TypedArray

definition getBuffer :: "'s symbols \<Rightarrow> pointer \<Rightarrow> nat \<Rightarrow> 's \<Rightarrow> error + buffers" where
  "getBuffer lib bufferPtr size' s =
     (let charPtr = sym_bufferGetCharPtr lib bufferPtr s;
          fgPtr = sym_bufferGetFgPtr lib bufferPtr s;
          bgPtr = sym_bufferGetBgPtr lib bufferPtr s;
          attributesPtr = sym_bufferGetAttributesPtr lib bufferPtr s
      in if charPtr = 0 \<or> fgPtr = 0 \<or> bgPtr = 0 \<or> attributesPtr = 0
         then Inl (Error ''Failed to get buffer pointers'')
         else
           case new_TypedArray Uint32 (toArrayBuffer charPtr 0 (size' * 4)) of
             Inl e \<Rightarrow> Inl e
           | Inr char \<Rightarrow>
           case new_TypedArray Float32 (toArrayBuffer fgPtr 0 (size' * 4 * 4)) of
             Inl e \<Rightarrow> Inl e
           | Inr fg \<Rightarrow>
           case new_TypedArray Float32 (toArrayBuffer bgPtr 0 (size' * 4 * 4)) of
             Inl e \<Rightarrow> Inl e
           | Inr bg \<Rightarrow>
           case new_TypedArray Uint8 (toArrayBuffer attributesPtr 0 size') of
             Inl e \<Rightarrow> Inl e
           | Inr attributes \<Rightarrow>
               Inr \<lparr>buf_char = char, buf_fg = fg, buf_bg = bg, buf_attributes = attributes\<rparr>)"

text \<open>\<^verbatim>\<open>OptimizedBuffer\<close> (from \<^verbatim>\<open>./buffer\<close>) is constructed from the library instance
  itself, the buffer pointer, the views, the width, the height and an options object
  that is empty or holds \<^verbatim>\<open>respectAlpha\<close>; the record keeps these constructor
  arguments (without the back reference to the library).\<close>

record OptimizedBuffer =
  ob_ptr :: pointer
  ob_buffers :: buffers
  ob_width :: nat
  ob_height :: nat
  ob_respectAlpha :: "bool option"

definition createRenderer :: "'s symbols \<Rightarrow> nat \<Rightarrow> nat \<Rightarrow> 's \<Rightarrow> pointer \<times> 's" where
  "createRenderer lib width height s = sym_createRenderer lib width height s"

definition getNextBuffer :: "'s symbols \<Rightarrow> pointer \<Rightarrow> 's \<Rightarrow> (error + OptimizedBuffer) \<times> 's" where
  "getNextBuffer lib renderer s =
     (let (bufferPtr, s1) = sym_getNextBuffer lib renderer s
      in if bufferPtr = 0 then (Inl (Error ''Failed to get next buffer''), s1)
         else
           let width = sym_getBufferWidth lib bufferPtr s1;
               height = sym_getBufferHeight lib bufferPtr s1;
               size' = width * height
           in case getBuffer lib bufferPtr size' s1 of
                Inl e \<Rightarrow> (Inl e, s1)
              | Inr buffers \<Rightarrow>
                  (Inr \<lparr>ob_ptr = bufferPtr, ob_buffers = buffers, ob_width = width,
                         ob_height = height, ob_respectAlpha = None\<rparr>, s1))"

definition getCurrentBuffer :: "'s symbols \<Rightarrow> pointer \<Rightarrow> 's \<Rightarrow> (error + OptimizedBuffer) \<times> 's" where
  "getCurrentBuffer lib renderer s =
     (let (bufferPtr, s1) = sym_getCurrentBuffer lib renderer s
      in if bufferPtr = 0 then (Inl (Error ''Failed to get current buffer''), s1)
         else
           let width = sym_getBufferWidth lib bufferPtr s1;
               height = sym_getBufferHeight lib bufferPtr s1;
               size' = width * height
           in case getBuffer lib bufferPtr size' s1 of
                Inl e \<Rightarrow> (Inl e, s1)
              | Inr buffers \<Rightarrow>
                  (Inr \<lparr>ob_ptr = bufferPtr, ob_buffers = buffers, ob_width = width,
                         ob_height = height, ob_respectAlpha = None\<rparr>, s1))"

definition createOptimizedBuffer ::
  "'s symbols \<Rightarrow> nat \<Rightarrow> nat \<Rightarrow> bool option \<Rightarrow> 's \<Rightarrow> (error + OptimizedBuffer) \<times> 's" where
  "createOptimizedBuffer lib width height respectAlpha_opt s =
     (let respectAlpha = nullish respectAlpha_opt False;
          (bufferPtr, s1) = sym_createOptimizedBuffer lib width height respectAlpha s
      in if bufferPtr = 0 then (Inl (Error ''Failed to create optimized buffer''), s1)
         else
           let size' = width * height
           in case getBuffer lib bufferPtr size' s1 of
                Inl e \<Rightarrow> (Inl e, s1)
              | Inr buffers \<Rightarrow>
                  (Inr \<lparr>ob_ptr = bufferPtr, ob_buffers = buffers, ob_width = width,
                         ob_height = height, ob_respectAlpha = Some respectAlpha\<rparr>, s1))"

definition bufferResize ::
  "'s symbols \<Rightarrow> pointer \<Rightarrow> nat \<Rightarrow> nat \<Rightarrow> 's \<Rightarrow> (error + buffers) \<times> 's" where
  "bufferResize lib buffer width height s =
     (let s1 = sym_bufferResize lib buffer width height s;
          buffers = getBuffer lib buffer (width * height) s1
      in (buffers, s1))"

text \<open>Two abbreviations for the statements below: one of the four array pointers the
  engine reports for a buffer is null; and the four views \<^verbatim>\<open>getBuffer\<close> builds over
  the array pointers for a given cell count.\<close>

definition array_pointer_null :: "'s symbols \<Rightarrow> pointer \<Rightarrow> 's \<Rightarrow> bool" where
  "array_pointer_null lib bufferPtr s =
     (sym_bufferGetCharPtr lib bufferPtr s = 0 \<or> sym_bufferGetFgPtr lib bufferPtr s = 0 \<or>
      sym_bufferGetBgPtr lib bufferPtr s = 0 \<or> sym_bufferGetAttributesPtr lib bufferPtr s = 0)"

definition views_of :: "'s symbols \<Rightarrow> pointer \<Rightarrow> nat \<Rightarrow> 's \<Rightarrow> buffers" where
  "views_of lib bufferPtr size' s =
     \<lparr>buf_char = \<lparr>ta_type = Uint32,
                   ta_buffer = \<lparr>ab_address = sym_bufferGetCharPtr lib bufferPtr s, ab_byteLength = 4 * size'\<rparr>,
                   ta_length = size'\<rparr>,
      buf_fg = \<lparr>ta_type = Float32,
                 ta_buffer = \<lparr>ab_address = sym_bufferGetFgPtr lib bufferPtr s, ab_byteLength = 16 * size'\<rparr>,
                 ta_length = 4 * size'\<rparr>,
      buf_bg = \<lparr>ta_type = Float32,
                 ta_buffer = \<lparr>ab_address = sym_bufferGetBgPtr lib bufferPtr s, ab_byteLength = 16 * size'\<rparr>,
                 ta_length = 4 * size'\<rparr>,
      buf_attributes = \<lparr>ta_type = Uint8,
                 ta_buffer = \<lparr>ab_address = sym_bufferGetAttributesPtr lib bufferPtr s, ab_byteLength = size'\<rparr>,
                 ta_length = size'\<rparr>\<rparr>"

text \<open>The view lengths for a buffer of \<open>w\<close> by \<open>h\<close> cells: one \<^verbatim>\<open>uint32\<close> per cell,
  four \<^verbatim>\<open>float32\<close> per cell for each colour array, one \<^verbatim>\<open>uint8\<close> per cell.\<close>

definition has_view_lengths :: "buffers \<Rightarrow> nat \<Rightarrow> nat \<Rightarrow> bool" where
  "has_view_lengths bs w h =
     (ta_type (buf_char bs) = Uint32 \<and> ta_length (buf_char bs) = w * h \<and>
      ta_type (buf_fg bs) = Float32 \<and> ta_length (buf_fg bs) = 4 * (w * h) \<and>
      ta_type (buf_bg bs) = Float32 \<and> ta_length (buf_bg bs) = 4 * (w * h) \<and>
      ta_type (buf_attributes bs) = Uint8 \<and> ta_length (buf_attributes bs) = w * h)"

subsection \<open>A small engine for evaluating the methods at concrete inputs\<close>

text \<open>
  Its state holds the size of its one buffer, the address of the character array
  (which a state may set to null) and the drawing calls it has received, the latest
  first, with their arguments; allocation fails for an empty size.
\<close>

datatype toy_call =
  DrawFrameBuffer pointer int int pointer nat nat nat nat
| BufferDrawText pointer "8 word list" nat int int float32array "float32array option" nat
| BufferSetCellWithAlphaBlending pointer int int nat float32array float32array nat
| BufferFillRect pointer int int int int float32array
| BufferDrawSuperSampleBuffer pointer int int pointer nat nat nat

record toy_state =
  toy_width :: nat
  toy_height :: nat
  toy_charPtr :: pointer
  toy_calls :: "toy_call list"

definition toy_engine :: "toy_state symbols" where
  "toy_engine =
     \<lparr>sym_createRenderer = (\<lambda>w h s. (if w = 0 \<or> h = 0 then 0 else 256, s\<lparr>toy_width := w, toy_height := h\<rparr>)),
      sym_getNextBuffer = (\<lambda>r s. (if r = 256 then 512 else 0, s)),
      sym_getCurrentBuffer = (\<lambda>r s. (if r = 256 then 768 else 0, s)),
      sym_createOptimizedBuffer =
        (\<lambda>w h ra s. (if w = 0 \<or> h = 0 then 0 else 1024, s\<lparr>toy_width := w, toy_height := h\<rparr>)),
      sym_drawFrameBuffer =
        (\<lambda>t dx dy b sx sy sw sh s. s\<lparr>toy_calls := DrawFrameBuffer t dx dy b sx sy sw sh # toy_calls s\<rparr>),
      sym_getBufferWidth = (\<lambda>b s. toy_width s),
      sym_getBufferHeight = (\<lambda>b s. toy_height s),
      sym_bufferGetCharPtr = (\<lambda>b s. toy_charPtr s),
      sym_bufferGetFgPtr = (\<lambda>b s. 8192),
      sym_bufferGetBgPtr = (\<lambda>b s. 12288),
      sym_bufferGetAttributesPtr = (\<lambda>b s. 16384),
      sym_bufferDrawText =
        (\<lambda>b bytes len x y fg bg a s. s\<lparr>toy_calls := BufferDrawText b bytes len x y fg bg a # toy_calls s\<rparr>),
      sym_bufferSetCellWithAlphaBlending =
        (\<lambda>b x y c fg bg a s.
           s\<lparr>toy_calls := BufferSetCellWithAlphaBlending b x y c fg bg a # toy_calls s\<rparr>),
      sym_bufferFillRect =
        (\<lambda>b x y w h c s. s\<lparr>toy_calls := BufferFillRect b x y w h c # toy_calls s\<rparr>),
      sym_bufferResize = (\<lambda>b w h s. s\<lparr>toy_width := w, toy_height := h\<rparr>),
      sym_bufferDrawSuperSampleBuffer =
        (\<lambda>b x y p len f a s.
           s\<lparr>toy_calls := BufferDrawSuperSampleBuffer b x y p len f a # toy_calls s\<rparr>),
      sym_addToHitGrid = (\<lambda>r x y w h i s. s),
      sym_checkHit = (\<lambda>r x y s. 0),
      sym_clearHitGrid = (\<lambda>r s. s)\<rparr>"

text \<open>The same engine, except that it reports the width \<open>7\<close> for every buffer,
  whatever width the buffer was created with.\<close>

definition toy_engine_width7 :: "toy_state symbols" where
  "toy_engine_width7 = toy_engine\<lparr>sym_getBufferWidth := (\<lambda>b s. 7)\<rparr>"

subsection \<open>JavaScript strings (ECMAScript, WHATWG Encoding)\<close>

text \<open>
  A JavaScript string is a sequence of UTF-16 code units. The two library operations
  the binding applies to strings are modelled after their standards:
  \<^verbatim>\<open>String.prototype.codePointAt\<close> with the abstract operations \<^verbatim>\<open>CodePointAt\<close>,
  \<^verbatim>\<open>UTF16SurrogatePairToCodePoint\<close> and \<^verbatim>\<open>StringToCodePoints\<close> of ECMAScript, and
  \<^verbatim>\<open>TextEncoder.prototype.encode\<close>, which converts the string to scalar values (an
  unpaired surrogate becomes U+FFFD) and writes each one in UTF-8.
\<close>

type_synonym js_string = "16 word list"

definition is_lead_surrogate :: "16 word \<Rightarrow> bool" where
  "is_lead_surrogate c = (0xD800 \<le> c \<and> c \<le> 0xDBFF)"

definition is_trail_surrogate :: "16 word \<Rightarrow> bool" where
  "is_trail_surrogate c = (0xDC00 \<le> c \<and> c \<le> 0xDFFF)"

definition UTF16SurrogatePairToCodePoint :: "16 word \<Rightarrow> 16 word \<Rightarrow> nat" where
  "UTF16SurrogatePairToCodePoint lead trail =
     (unat lead - 0xD800) * 0x400 + (unat trail - 0xDC00) + 0x10000"

text \<open>\<^verbatim>\<open>CodePointAt(string, position)\<close>, called with \<open>position < length string\<close> only.\<close>

definition CodePointAt :: "js_string \<Rightarrow> nat \<Rightarrow> nat" where
  "CodePointAt string position =
     (let first = string ! position in
      if \<not> is_lead_surrogate first \<and> \<not> is_trail_surrogate first then unat first
      else if is_trail_surrogate first \<or> position + 1 = length string then unat first
      else let second = string ! (position + 1) in
           if \<not> is_trail_surrogate second then unat first
           else UTF16SurrogatePairToCodePoint first second)"

text \<open>\<^verbatim>\<open>string.codePointAt(pos)\<close>: \<^verbatim>\<open>undefined\<close> (\<open>None\<close>) outside the string.\<close>

definition codePointAt :: "js_string \<Rightarrow> int \<Rightarrow> nat option" where
  "codePointAt string pos =
     (if pos < 0 \<or> int (length string) \<le> pos then None
      else Some (CodePointAt string (nat pos)))"

text \<open>The code points of a string: a surrogate pair is one code point, any other
  code unit (an unpaired surrogate too) is a code point of its own.\<close>

fun StringToCodePoints :: "js_string \<Rightarrow> nat list" where
  "StringToCodePoints [] = []"
| "StringToCodePoints [c] = [unat c]"
| "StringToCodePoints (c # d # cs) =
     (if is_lead_surrogate c \<and> is_trail_surrogate d
      then UTF16SurrogatePairToCodePoint c d # StringToCodePoints cs
      else unat c # StringToCodePoints (d # cs))"

fun scalar_values :: "js_string \<Rightarrow> nat list" where
  "scalar_values [] = []"
| "scalar_values [c] = [if is_lead_surrogate c \<or> is_trail_surrogate c then 0xFFFD else unat c]"
| "scalar_values (c # d # cs) =
     (if is_lead_surrogate c \<and> is_trail_surrogate d
      then UTF16SurrogatePairToCodePoint c d # scalar_values cs
      else (if is_lead_surrogate c \<or> is_trail_surrogate c then 0xFFFD else unat c)
             # scalar_values (d # cs))"

definition utf8_bytes :: "nat \<Rightarrow> 8 word list" where
  "utf8_bytes cp =
     (if cp < 0x80 then [of_nat cp]
      else if cp < 0x800 then [of_nat (0xC0 + cp div 0x40), of_nat (0x80 + cp mod 0x40)]
      else if cp < 0x10000 then
        [of_nat (0xE0 + cp div 0x1000), of_nat (0x80 + cp div 0x40 mod 0x40),
         of_nat (0x80 + cp mod 0x40)]
      else
        [of_nat (0xF0 + cp div 0x40000), of_nat (0x80 + cp div 0x1000 mod 0x40),
         of_nat (0x80 + cp div 0x40 mod 0x40), of_nat (0x80 + cp mod 0x40)])"

text \<open>The number of bytes UTF-8 takes for one scalar value.\<close>

definition utf8_length :: "nat \<Rightarrow> nat" where
  "utf8_length cp =
     (if cp < 0x80 then 1 else if cp < 0x800 then 2 else if cp < 0x10000 then 3 else 4)"

text \<open>\<^verbatim>\<open>this.encoder.encode(text)\<close>: the bytes of the \<^verbatim>\<open>Uint8Array\<close> it returns; its
  \<^verbatim>\<open>byteLength\<close> is their number.\<close>

definition TextEncoder_encode :: "js_string \<Rightarrow> 8 word list" where
  "TextEncoder_encode input = concat (map utf8_bytes (scalar_values input))"

subsection \<open>Text and cell drawing (lines 428-459)\<close>

definition bufferDrawText ::
  "'s symbols \<Rightarrow> pointer \<Rightarrow> js_string \<Rightarrow> int \<Rightarrow> int \<Rightarrow> RGBA \<Rightarrow> RGBA option \<Rightarrow> nat option \<Rightarrow>
   's \<Rightarrow> 's" where
  "bufferDrawText lib buffer text x y color bgColor attributes s =
     (let textBytes = TextEncoder_encode text;
          textLength = length textBytes;
          bg = (case bgColor of Some c \<Rightarrow> Some (rgba_buffer c) | None \<Rightarrow> None);
          fg = rgba_buffer color
      in sym_bufferDrawText lib buffer textBytes textLength x y fg bg (nullish attributes 0) s)"

text \<open>In \<^verbatim>\<open>char.codePointAt(0) ?? " ".codePointAt(0)!\<close> the right operand is the code
  point of the one-character string holding a space; \<^verbatim>\<open>!\<close> takes its value.\<close>

definition bufferSetCellWithAlphaBlending ::
  "'s symbols \<Rightarrow> pointer \<Rightarrow> int \<Rightarrow> int \<Rightarrow> js_string \<Rightarrow> RGBA \<Rightarrow> RGBA \<Rightarrow> nat option \<Rightarrow> 's \<Rightarrow> 's" where
  "bufferSetCellWithAlphaBlending lib buffer x y char color bgColor attributes s =
     (let charPtr = nullish (codePointAt char 0) (the (codePointAt [0x20] 0));
          bg = rgba_buffer bgColor;
          fg = rgba_buffer color
      in sym_bufferSetCellWithAlphaBlending lib buffer x y charPtr fg bg (nullish attributes 0) s)"

definition bufferFillRect ::
  "'s symbols \<Rightarrow> pointer \<Rightarrow> int \<Rightarrow> int \<Rightarrow> int \<Rightarrow> int \<Rightarrow> RGBA \<Rightarrow> 's \<Rightarrow> 's" where
  "bufferFillRect lib buffer x y width height color s =
     (let bg = rgba_buffer color
      in sym_bufferFillRect lib buffer x y width height bg s)"

subsection \<open>Hit grid (lines 587-597)\<close>

definition addToHitGrid ::
  "'s symbols \<Rightarrow> pointer \<Rightarrow> int \<Rightarrow> int \<Rightarrow> nat \<Rightarrow> nat \<Rightarrow> nat \<Rightarrow> 's \<Rightarrow> 's" where
  "addToHitGrid lib renderer x y width height id' s =
     sym_addToHitGrid lib renderer x y width height id' s"

definition checkHit :: "'s symbols \<Rightarrow> pointer \<Rightarrow> int \<Rightarrow> int \<Rightarrow> 's \<Rightarrow> nat" where
  "checkHit lib renderer x y s = sym_checkHit lib renderer x y s"

definition clearHitGrid :: "'s symbols \<Rightarrow> pointer \<Rightarrow> 's \<Rightarrow> 's" where
  "clearHitGrid lib renderer s = sym_clearHitGrid lib renderer s"

section \<open>Loading the library (lines 17-32, 288-294, 600-612)\<close>

text \<open>
  What \<^verbatim>\<open>findLibrary\<close> and \<^verbatim>\<open>getOpenTUILib\<close> read from the process and the file
  system is a parameter: the platform, architecture and shared-library suffix, the
  package name from \<^verbatim>\<open>package.json\<close>, \<^verbatim>\<open>require.resolve\<close> (\<open>None\<close> when it throws),
  \<^verbatim>\<open>existsSync\<close>, and \<^verbatim>\<open>dlopen\<close> (\<open>None\<close> when it throws; otherwise the handle with
  the symbol table, of a type \<open>'h\<close> left open).
\<close>

record 'h environment =
  env_platform :: string
  env_arch :: string
  env_suffix :: string
  env_packageName :: string
  env_require_resolve :: "string \<Rightarrow> string option"
  env_existsSync :: "string \<Rightarrow> bool"
  env_dlopen :: "string \<Rightarrow> 'h option"

text \<open>The \<^verbatim>\<open>try\<close> block returns the target-specific path when it resolves and exists;
  a throw inside it is swallowed by the empty \<^verbatim>\<open>catch\<close>, and the function then throws
  its own error.\<close>

definition findLibrary :: "'h environment \<Rightarrow> error + string" where
  "findLibrary env =
     (let isWindows = (env_platform env = ''win32'');
          libraryName = (if isWindows then ''opentui'' else ''libopentui'')
      in case env_require_resolve env
                (env_packageName env @ ''-'' @ env_platform env @ ''-'' @ env_arch env @ ''/''
                   @ libraryName @ ''.'' @ env_suffix env) of
           Some targetLibPath \<Rightarrow>
             if env_existsSync env targetLibPath then Inr targetLibPath
             else Inl (Error (''opentui is not supported on the current platform: ''
                                @ env_platform env @ ''-'' @ env_arch env))
         | None \<Rightarrow>
             Inl (Error (''opentui is not supported on the current platform: ''
                           @ env_platform env @ ''-'' @ env_arch env)))"

text \<open>\<^verbatim>\<open>libPath || findLibrary()\<close>: the left operand is falsy when it is \<^verbatim>\<open>undefined\<close>
  and also when it is the empty string.\<close>

definition resolvedLibPath :: "'h environment \<Rightarrow> string option \<Rightarrow> error + string" where
  "resolvedLibPath env libPath =
     (case libPath of
        Some p \<Rightarrow> if p \<noteq> [] then Inr p else findLibrary env
      | None \<Rightarrow> findLibrary env)"

definition getOpenTUILib :: "'h environment \<Rightarrow> string option \<Rightarrow> error + 'h" where
  "getOpenTUILib env libPath =
     (case resolvedLibPath env libPath of
        Inl e \<Rightarrow> Inl e
      | Inr p \<Rightarrow>
          (case env_dlopen env p of
             None \<Rightarrow> Inl (DlopenError p)
           | Some h \<Rightarrow> Inr h))"

text \<open>An instance of \<^verbatim>\<open>FFIRenderLib\<close> holds the handle in its field \<^verbatim>\<open>opentui\<close> (and a
  \<^verbatim>\<open>TextEncoder\<close>, which has no state). JavaScript compares objects by identity:
  every constructed instance gets a number of its own, taken from the count of
  instances the module has constructed so far.\<close>

record 'h FFIRenderLib =
  lib_identity :: nat
  opentui :: 'h

definition new_FFIRenderLib :: "'h environment \<Rightarrow> nat \<Rightarrow> string option \<Rightarrow> error + 'h FFIRenderLib" where
  "new_FFIRenderLib env identity libPath =
     (case getOpenTUILib env libPath of
        Inl e \<Rightarrow> Inl e
      | Inr h \<Rightarrow> Inr \<lparr>lib_identity = identity, opentui = h\<rparr>)"

text \<open>The two module-level variables, both \<^verbatim>\<open>undefined\<close> at first, and the functions
  that read and write them.\<close>

record 'h module_state =
  opentuiLibPath :: "string option"
  opentuiLib :: "'h FFIRenderLib option"
  constructed :: nat

definition initial_module_state :: "'h module_state" where
  "initial_module_state = \<lparr>opentuiLibPath = None, opentuiLib = None, constructed = 0\<rparr>"

definition setRenderLibPath :: "string \<Rightarrow> 'h module_state \<Rightarrow> 'h module_state" where
  "setRenderLibPath libPath st = st\<lparr>opentuiLibPath := Some libPath\<rparr>"

definition resolveRenderLib ::
  "'h environment \<Rightarrow> 'h module_state \<Rightarrow> (error + 'h FFIRenderLib) \<times> 'h module_state" where
  "resolveRenderLib env st =
     (case opentuiLib st of
        None \<Rightarrow>
          (case new_FFIRenderLib env (constructed st) (opentuiLibPath st) of
             Inl e \<Rightarrow> (Inl e, st)
           | Inr l \<Rightarrow> (Inr l, st\<lparr>opentuiLib := Some l, constructed := Suc (constructed st)\<rparr>))
      | Some l \<Rightarrow> (Inr l, st))"

text \<open>A sequence of calls of the two exported functions, run from left to right; the
  results of the \<^verbatim>\<open>resolveRenderLib\<close> calls are collected in order.\<close>

datatype module_call = SetRenderLibPath string | ResolveRenderLib

fun run_calls ::
  "'h environment \<Rightarrow> module_call list \<Rightarrow> 'h module_state \<Rightarrow>
   (error + 'h FFIRenderLib) list \<times> 'h module_state" where
  "run_calls env [] st = ([], st)"
| "run_calls env (SetRenderLibPath p # cs) st = run_calls env cs (setRenderLibPath p st)"
| "run_calls env (ResolveRenderLib # cs) st =
     (let (r, st1) = resolveRenderLib env st;
          (rs, st2) = run_calls env cs st1
      in (r # rs, st2))"

text \<open>An environment for evaluation: every package resolves under \<^verbatim>\<open>/node_modules/\<close>,
  every file exists, and the handle \<^verbatim>\<open>dlopen\<close> returns is the path it opened.\<close>

definition toy_environment :: "string environment" where
  "toy_environment =
     \<lparr>env_platform = ''linux'', env_arch = ''x64'', env_suffix = ''so'',
      env_packageName = ''opentui'',
      env_require_resolve = (\<lambda>p. Some (''/node_modules/'' @ p)),
      env_existsSync = (\<lambda>p. True),
      env_dlopen = (\<lambda>p. Some p)\<rparr>"

section \<open>The engine as the specification describes it\<close>

text \<open>
  The hit grid and the cell buffer live in the engine behind the symbols; the
  binding forwards \<^verbatim>\<open>addToHitGrid\<close>, \<^verbatim>\<open>checkHit\<close>, \<^verbatim>\<open>clearHitGrid\<close>,
  \<^verbatim>\<open>bufferSetCellWithAlphaBlending\<close>, \<^verbatim>\<open>bufferDrawText\<close> and \<^verbatim>\<open>bufferFillRect\<close> to it.
  The definitions of this section follow the specification (sections 3, 4.1, 4.3),
  not code.
\<close>

subsection \<open>HitGrid\<close>

text \<open>Modelled from the spec: the engine's HitGrid, which is not in \<^verbatim>\<open>zig.ts\<close>. "A raster of
  one owner-id per cell position", for the renderer's width and height, stored row
  by row.\<close>

record hit_grid =
  hg_width :: nat
  hg_height :: nat
  hg_ids :: "nat list"

text \<open>Modelled from the spec: the hit grid of a new renderer (not in \<^verbatim>\<open>zig.ts\<close>); every
  cell holds the empty sentinel \<open>0\<close>.\<close>

definition new_hit_grid :: "nat \<Rightarrow> nat \<Rightarrow> hit_grid" where
  "new_hit_grid w h = \<lparr>hg_width = w, hg_height = h, hg_ids = replicate (w * h) 0\<rparr>"

text \<open>Modelled from the spec: the positions that are cells of the grid (not in
  \<^verbatim>\<open>zig.ts\<close>).\<close>

definition hg_in_grid :: "hit_grid \<Rightarrow> int \<Rightarrow> int \<Rightarrow> bool" where
  "hg_in_grid g x y = (0 \<le> x \<and> x < int (hg_width g) \<and> 0 \<le> y \<and> y < int (hg_height g))"

text \<open>Modelled from the spec: the positions a rectangle \<open>(x, y, w, h)\<close> covers (the
  engine's rectangle arithmetic is not in \<^verbatim>\<open>zig.ts\<close>).\<close>

definition rect_covers :: "int \<Rightarrow> int \<Rightarrow> int \<Rightarrow> int \<Rightarrow> int \<Rightarrow> int \<Rightarrow> bool" where
  "rect_covers x y w h px py = (x \<le> px \<and> px < x + w \<and> y \<le> py \<and> py < y + h)"

text \<open>Modelled from the spec: the engine's \<^verbatim>\<open>addToHitGrid\<close> (not in \<^verbatim>\<open>zig.ts\<close>). "Each call
  overwrites the owner-id raster for its covered cells": a cell of the grid that the
  rectangle covers gets the id, every other cell keeps its owner.\<close>

definition hg_addToHitGrid :: "hit_grid \<Rightarrow> int \<Rightarrow> int \<Rightarrow> nat \<Rightarrow> nat \<Rightarrow> nat \<Rightarrow> hit_grid" where
  "hg_addToHitGrid g x y w h ident =
     g\<lparr>hg_ids :=
         map (\<lambda>i. if rect_covers x y (int w) (int h) (int (i mod hg_width g)) (int (i div hg_width g))
                  then ident else hg_ids g ! i)
             [0 ..< length (hg_ids g)]\<rparr>"

text \<open>Modelled from the spec: the engine's \<^verbatim>\<open>checkHit\<close> (not in \<^verbatim>\<open>zig.ts\<close>). "Returns the
  owner id at (x,y), or an empty sentinel (0) if none"; a position that is no cell of
  the grid has no owner.\<close>

definition hg_checkHit :: "hit_grid \<Rightarrow> int \<Rightarrow> int \<Rightarrow> nat" where
  "hg_checkHit g x y =
     (if hg_in_grid g x y then hg_ids g ! (nat y * hg_width g + nat x) else 0)"

text \<open>Modelled from the spec: the engine's \<^verbatim>\<open>clearHitGrid\<close> (not in \<^verbatim>\<open>zig.ts\<close>). "Resets
  every cell's owner id to the sentinel".\<close>

definition hg_clearHitGrid :: "hit_grid \<Rightarrow> hit_grid" where
  "hg_clearHitGrid g = g\<lparr>hg_ids := replicate (hg_width g * hg_height g) 0\<rparr>"

text \<open>Modelled from the spec: the raster holds exactly one id per cell of the grid
  (the engine's allocation is not in \<^verbatim>\<open>zig.ts\<close>).\<close>

definition hg_wf :: "hit_grid \<Rightarrow> bool" where
  "hg_wf g = (length (hg_ids g) = hg_width g * hg_height g)"

subsection \<open>CellBuffer\<close>

text \<open>Modelled from the spec: a colour, "RGBA (4 x float, 0..1)" (the engine's colour type
  is not in \<^verbatim>\<open>zig.ts\<close>); the channels are taken as real numbers, so the rounding of
  32-bit floats is not part of the model.\<close>

type_synonym rgba = "real \<times> real \<times> real \<times> real"

text \<open>Modelled from the spec: the engine's CellBuffer (not in \<^verbatim>\<open>zig.ts\<close>): width, height,
  the \<^verbatim>\<open>respectAlpha\<close> flag and "four parallel arrays indexed by \<^verbatim>\<open>y*width+x\<close>":
  code points, foreground, background, attributes.\<close>

record cell_buffer =
  cb_width :: nat
  cb_height :: nat
  cb_respectAlpha :: bool
  cb_char :: "nat list"
  cb_fg :: "rgba list"
  cb_bg :: "rgba list"
  cb_attributes :: "nat list"

text \<open>Modelled from the spec: the coordinates inside \<open>[0,width) x [0,height)\<close> (the
  engine's bounds check is not in \<^verbatim>\<open>zig.ts\<close>).\<close>

definition cb_in_bounds :: "cell_buffer \<Rightarrow> int \<Rightarrow> int \<Rightarrow> bool" where
  "cb_in_bounds b x y = (0 \<le> x \<and> x < int (cb_width b) \<and> 0 \<le> y \<and> y < int (cb_height b))"

text \<open>Modelled from the spec: the array index \<^verbatim>\<open>y*width+x\<close> of a cell (engine code, not in
  \<^verbatim>\<open>zig.ts\<close>).\<close>

definition cb_index :: "cell_buffer \<Rightarrow> int \<Rightarrow> int \<Rightarrow> nat" where
  "cb_index b x y = nat y * cb_width b + nat x"

text \<open>Modelled from the spec: alpha-over blending (engine code, not in \<^verbatim>\<open>zig.ts\<close>):
  "\<^verbatim>\<open>result = src*src.a + dst*(1-src.a)\<close> per channel,
  \<^verbatim>\<open>result.a = src.a + dst.a*(1-src.a)\<close>".\<close>

fun alpha_over :: "rgba \<Rightarrow> rgba \<Rightarrow> rgba" where
  "alpha_over (sr, sg, sb, sa) (dr, dg, db, da) =
     (sr * sa + dr * (1 - sa), sg * sa + dg * (1 - sa), sb * sa + db * (1 - sa),
      sa + da * (1 - sa))"

text \<open>Modelled from the spec: how a write combines a colour with the cell's colour
  (engine code, not in \<^verbatim>\<open>zig.ts\<close>): "\<^verbatim>\<open>respectAlpha=false\<close> buffers always overwrite on
  write; \<^verbatim>\<open>respectAlpha=true\<close> buffers blend via alpha-over".\<close>

definition cb_blend :: "cell_buffer \<Rightarrow> rgba \<Rightarrow> rgba \<Rightarrow> rgba" where
  "cb_blend b src dst = (if cb_respectAlpha b then alpha_over src dst else src)"

text \<open>Modelled from the spec: the engine's \<^verbatim>\<open>setCellWithAlphaBlending\<close> (not in \<^verbatim>\<open>zig.ts\<close>).
  "Writes one cell ... Out-of-bounds (x,y) is a no-op."\<close>

definition cb_setCellWithAlphaBlending ::
  "cell_buffer \<Rightarrow> int \<Rightarrow> int \<Rightarrow> nat \<Rightarrow> rgba \<Rightarrow> rgba \<Rightarrow> nat \<Rightarrow> cell_buffer" where
  "cb_setCellWithAlphaBlending b x y codepoint fg bg attributes =
     (if cb_in_bounds b x y
      then let i = cb_index b x y
           in b\<lparr>cb_char := (cb_char b)[i := codepoint],
                cb_fg := (cb_fg b)[i := cb_blend b fg (cb_fg b ! i)],
                cb_bg := (cb_bg b)[i := cb_blend b bg (cb_bg b ! i)],
                cb_attributes := (cb_attributes b)[i := attributes]\<rparr>
      else b)"

text \<open>Modelled from the spec: the write of one code point of a text (engine code, not
  in \<^verbatim>\<open>zig.ts\<close>). "Cells beyond buffer bounds are silently skipped"; "omitted \<^verbatim>\<open>bg\<close>
  preserves existing background".\<close>

definition cb_drawTextCell ::
  "cell_buffer \<Rightarrow> int \<Rightarrow> int \<Rightarrow> nat \<Rightarrow> rgba \<Rightarrow> rgba option \<Rightarrow> nat \<Rightarrow> cell_buffer" where
  "cb_drawTextCell b x y codepoint fg bg attributes =
     (if cb_in_bounds b x y
      then let i = cb_index b x y
           in b\<lparr>cb_char := (cb_char b)[i := codepoint],
                cb_fg := (cb_fg b)[i := cb_blend b fg (cb_fg b ! i)],
                cb_bg := (case bg of
                            None \<Rightarrow> cb_bg b
                          | Some c \<Rightarrow> (cb_bg b)[i := cb_blend b c (cb_bg b ! i)]),
                cb_attributes := (cb_attributes b)[i := attributes]\<rparr>
      else b)"

text \<open>Modelled from the spec: the engine's \<^verbatim>\<open>drawText\<close> (not in \<^verbatim>\<open>zig.ts\<close>), on the decoded
  code points of the text. "Writes decoded Unicode codepoints left-to-right starting
  at (x,y), one codepoint per cell".\<close>

fun cb_drawText ::
  "cell_buffer \<Rightarrow> nat list \<Rightarrow> int \<Rightarrow> int \<Rightarrow> rgba \<Rightarrow> rgba option \<Rightarrow> nat \<Rightarrow> cell_buffer" where
  "cb_drawText b [] x y fg bg attributes = b"
| "cb_drawText b (codepoint # rest) x y fg bg attributes =
     cb_drawText (cb_drawTextCell b x y codepoint fg bg attributes) rest (x + 1) y fg bg attributes"

text \<open>Modelled from the spec: the cells \<^verbatim>\<open>fillRect\<close> writes (engine code, not in
  \<^verbatim>\<open>zig.ts\<close>), by array index: "the intersection of the rect with buffer bounds".\<close>

definition cb_filled :: "cell_buffer \<Rightarrow> int \<Rightarrow> int \<Rightarrow> int \<Rightarrow> int \<Rightarrow> nat \<Rightarrow> bool" where
  "cb_filled b x y w h i =
     (cb_in_bounds b (int (i mod cb_width b)) (int (i div cb_width b)) \<and>
      rect_covers x y w h (int (i mod cb_width b)) (int (i div cb_width b)))"

text \<open>Modelled from the spec: the engine's \<^verbatim>\<open>fillRect\<close> (not in \<^verbatim>\<open>zig.ts\<close>). "Sets
  background (and resets char to space) for the intersection of the rect with buffer
  bounds; non-positive w/h is a no-op."\<close>

definition cb_fillRect :: "cell_buffer \<Rightarrow> int \<Rightarrow> int \<Rightarrow> int \<Rightarrow> int \<Rightarrow> rgba \<Rightarrow> cell_buffer" where
  "cb_fillRect b x y w h color =
     (if w \<le> 0 \<or> h \<le> 0 then b
      else b\<lparr>cb_char := map (\<lambda>i. if cb_filled b x y w h i then 32 else cb_char b ! i)
                            [0 ..< length (cb_char b)],
             cb_bg := map (\<lambda>i. if cb_filled b x y w h i then color else cb_bg b ! i)
                          [0 ..< length (cb_bg b)]\<rparr>)"

section \<open>Properties\<close>

subsection \<open>The evaluation engine\<close>

lemma toy_engine_sel:
  "sym_getNextBuffer toy_engine r s = (if r = 256 then 512 else 0, s)"
  "sym_getCurrentBuffer toy_engine r s = (if r = 256 then 768 else 0, s)"
  "sym_createOptimizedBuffer toy_engine w h ra s =
     (if w = 0 \<or> h = 0 then 0 else 1024, s\<lparr>toy_width := w, toy_height := h\<rparr>)"
  "sym_getBufferWidth toy_engine b s = toy_width s"
  "sym_getBufferHeight toy_engine b s = toy_height s"
  "sym_bufferGetCharPtr toy_engine b s = toy_charPtr s"
  "sym_bufferGetFgPtr toy_engine b s = 8192"
  "sym_bufferGetBgPtr toy_engine b s = 12288"
  "sym_bufferGetAttributesPtr toy_engine b s = 16384"
  "sym_bufferResize toy_engine b w h s = s\<lparr>toy_width := w, toy_height := h\<rparr>"
  by (simp_all add: toy_engine_def)

lemma toy_engine_calls:
  "sym_drawFrameBuffer toy_engine t dx dy b sx sy sw sh s =
     s\<lparr>toy_calls := DrawFrameBuffer t dx dy b sx sy sw sh # toy_calls s\<rparr>"
  "sym_bufferDrawText toy_engine b bytes len x y fg bg a s =
     s\<lparr>toy_calls := BufferDrawText b bytes len x y fg bg a # toy_calls s\<rparr>"
  "sym_bufferSetCellWithAlphaBlending toy_engine b x y c fg bg' a s =
     s\<lparr>toy_calls := BufferSetCellWithAlphaBlending b x y c fg bg' a # toy_calls s\<rparr>"
  "sym_bufferDrawSuperSampleBuffer toy_engine b x y p len f al s =
     s\<lparr>toy_calls := BufferDrawSuperSampleBuffer b x y p len f al # toy_calls s\<rparr>"
  by (simp_all add: toy_engine_def)

subsection \<open>Argument marshalling\<close>

text \<open>
  C1. \<^verbatim>\<open>drawFrameBuffer\<close> passes every omitted source argument (\<^verbatim>\<open>sourceX\<close>, \<^verbatim>\<open>sourceY\<close>,
  \<^verbatim>\<open>sourceWidth\<close>, \<^verbatim>\<open>sourceHeight\<close>) to the native \<^verbatim>\<open>drawFrameBuffer\<close> as \<open>0\<close> and every
  given one as it is, so a call that omits the source width or height is the same
  native call as one that passes \<open>0\<close> for it (the value by which the engine selects
  the full source buffer); the target pointer, \<^verbatim>\<open>destX\<close>, \<^verbatim>\<open>destY\<close> and the source
  pointer are forwarded unchanged.
\<close>

theorem drawFrameBuffer_omitted_is_zero:
  "drawFrameBuffer lib target destX destY source None None None None s =
     sym_drawFrameBuffer lib target destX destY source 0 0 0 0 s
   \<and> drawFrameBuffer lib target destX destY source (Some sx) (Some sy) (Some sw) (Some sh) s =
     sym_drawFrameBuffer lib target destX destY source sx sy sw sh s
   \<and> drawFrameBuffer lib target destX destY source sourceX sourceY sourceWidth sourceHeight s =
     sym_drawFrameBuffer lib target destX destY source
       (case sourceX of None \<Rightarrow> 0 | Some v \<Rightarrow> v) (case sourceY of None \<Rightarrow> 0 | Some v \<Rightarrow> v)
       (case sourceWidth of None \<Rightarrow> 0 | Some v \<Rightarrow> v) (case sourceHeight of None \<Rightarrow> 0 | Some v \<Rightarrow> v) s
   \<and> drawFrameBuffer lib target destX destY source sourceX sourceY None None s =
     drawFrameBuffer lib target destX destY source sourceX sourceY (Some 0) (Some 0) s"
  by (simp add: drawFrameBuffer_def split: option.split)

theorem drawFrameBuffer_omitted_is_zero_witness:
  "toy_calls (drawFrameBuffer toy_engine 1024 3 (-2) 2048 None None None None
       \<lparr>toy_width = 2, toy_height = 3, toy_charPtr = 4096, toy_calls = []\<rparr>) =
     [DrawFrameBuffer 1024 3 (-2) 2048 0 0 0 0]
   \<and> toy_calls (drawFrameBuffer toy_engine 1024 3 (-2) 2048 (Some 1) None (Some 4) None
       \<lparr>toy_width = 2, toy_height = 3, toy_charPtr = 4096, toy_calls = []\<rparr>) =
     [DrawFrameBuffer 1024 3 (-2) 2048 1 0 4 0]"
  using drawFrameBuffer_omitted_is_zero
          [of toy_engine 1024 3 "-2" 2048
              "\<lparr>toy_width = 2, toy_height = 3, toy_charPtr = 4096, toy_calls = []\<rparr>"
              0 0 0 0 "Some 1" None "Some 4" None]
  by (simp add: toy_engine_calls)

text \<open>
  C2. \<^verbatim>\<open>bufferDrawSuperSampleBuffer\<close> encodes the format tag \<^verbatim>\<open>bgra8unorm\<close> as \<open>0\<close> and
  \<^verbatim>\<open>rgba8unorm\<close> as \<open>1\<close>, there is no third tag, and the buffer pointer, \<open>x\<close>, \<open>y\<close>, the
  pixel-data pointer, the pixel-data length and \<^verbatim>\<open>alignedBytesPerRow\<close> reach the
  native call unchanged.
\<close>

theorem bufferDrawSuperSampleBuffer_format_id:
  "bufferDrawSuperSampleBuffer lib buffer x y pixelDataPtr pixelDataLength Bgra8unorm alignedBytesPerRow s =
     sym_bufferDrawSuperSampleBuffer lib buffer x y pixelDataPtr pixelDataLength 0 alignedBytesPerRow s
   \<and> bufferDrawSuperSampleBuffer lib buffer x y pixelDataPtr pixelDataLength Rgba8unorm alignedBytesPerRow s =
     sym_bufferDrawSuperSampleBuffer lib buffer x y pixelDataPtr pixelDataLength 1 alignedBytesPerRow s
   \<and> (format = Bgra8unorm \<or> format = Rgba8unorm)"
  by (cases format) (simp_all add: bufferDrawSuperSampleBuffer_def)

theorem bufferDrawSuperSampleBuffer_format_id_witness:
  "toy_calls (bufferDrawSuperSampleBuffer toy_engine 1024 1 2 20480 64 Bgra8unorm 16
       \<lparr>toy_width = 2, toy_height = 3, toy_charPtr = 4096, toy_calls = []\<rparr>) =
     [BufferDrawSuperSampleBuffer 1024 1 2 20480 64 0 16]
   \<and> toy_calls (bufferDrawSuperSampleBuffer toy_engine 1024 1 2 20480 64 Rgba8unorm 16
       \<lparr>toy_width = 2, toy_height = 3, toy_charPtr = 4096, toy_calls = []\<rparr>) =
     [BufferDrawSuperSampleBuffer 1024 1 2 20480 64 1 16]"
  using bufferDrawSuperSampleBuffer_format_id
          [of toy_engine 1024 1 2 20480 64 16
              "\<lparr>toy_width = 2, toy_height = 3, toy_charPtr = 4096, toy_calls = []\<rparr>" Bgra8unorm]
  by (simp add: toy_engine_calls)

subsection \<open>Strings\<close>

lemma lead_not_trail: "is_lead_surrogate c \<Longrightarrow> \<not> is_trail_surrogate c"
  by (simp add: is_lead_surrogate_def is_trail_surrogate_def word_le_nat_alt)

lemma codePointAt_first:
  "codePointAt string 0 = (case StringToCodePoints string of [] \<Rightarrow> None | cp # _ \<Rightarrow> Some cp)"
proof (cases string rule: StringToCodePoints.cases)
  case 1
  then show ?thesis by (simp add: codePointAt_def)
next
  case (2 c)
  then show ?thesis by (simp add: codePointAt_def CodePointAt_def Let_def)
next
  case (3 c d cs)
  then show ?thesis
    using lead_not_trail [of c] by (auto simp add: codePointAt_def CodePointAt_def Let_def)
qed

lemma codePointAt_space: "codePointAt [0x20] 0 = Some 32"
  by (simp add: codePointAt_def CodePointAt_def is_lead_surrogate_def is_trail_surrogate_def)

lemma length_utf8_bytes: "length (utf8_bytes cp) = utf8_length cp"
  by (simp add: utf8_bytes_def utf8_length_def)

lemma length_TextEncoder_encode:
  "length (TextEncoder_encode input) = sum_list (map utf8_length (scalar_values input))"
  by (simp add: TextEncoder_encode_def length_concat comp_def length_utf8_bytes)

lemma TextEncoder_encode_example:
  "TextEncoder_encode [0x48, 0xE9, 0x20AC, 0xD83D, 0xDE00, 0xDC00] =
     [0x48, 0xC3, 0xA9, 0xE2, 0x82, 0xAC, 0xF0, 0x9F, 0x98, 0x80, 0xEF, 0xBF, 0xBD]"
  by (simp add: TextEncoder_encode_def utf8_bytes_def is_lead_surrogate_def is_trail_surrogate_def
        UTF16SurrogatePairToCodePoint_def)

text \<open>
  C6. \<^verbatim>\<open>bufferDrawText\<close> passes the UTF-8 encoding of the text together with the number
  of bytes of that encoding (the sum of the UTF-8 lengths of its scalar values, not
  the number of UTF-16 code units); an omitted \<^verbatim>\<open>bgColor\<close> reaches the native call as
  the null pointer and a given one as its \<^verbatim>\<open>buffer\<close>; an omitted \<^verbatim>\<open>attributes\<close> reaches it
  as \<open>0\<close>.
\<close>

theorem bufferDrawText_marshalling:
  "bufferDrawText lib buffer text x y color bgColor attributes s =
     sym_bufferDrawText lib buffer (TextEncoder_encode text) (length (TextEncoder_encode text)) x y
       (rgba_buffer color) (map_option rgba_buffer bgColor)
       (case attributes of None \<Rightarrow> 0 | Some a \<Rightarrow> a) s
   \<and> bufferDrawText lib buffer text x y color None None s =
     sym_bufferDrawText lib buffer (TextEncoder_encode text) (length (TextEncoder_encode text)) x y
       (rgba_buffer color) None 0 s
   \<and> length (TextEncoder_encode text) = sum_list (map utf8_length (scalar_values text))"
  by (simp add: bufferDrawText_def length_TextEncoder_encode split: option.split)

theorem bufferDrawText_marshalling_witness:
  "toy_calls (bufferDrawText toy_engine 1024 [0x48, 0xE9, 0x20AC, 0xD83D, 0xDE00, 0xDC00] 1 0
       \<lparr>rgba_buffer = [1, 1, 1, 1]\<rparr> None None
       \<lparr>toy_width = 2, toy_height = 3, toy_charPtr = 4096, toy_calls = []\<rparr>) =
     [BufferDrawText 1024 [0x48, 0xC3, 0xA9, 0xE2, 0x82, 0xAC, 0xF0, 0x9F, 0x98, 0x80, 0xEF, 0xBF, 0xBD]
        13 1 0 [1, 1, 1, 1] None 0]
   \<and> toy_calls (bufferDrawText toy_engine 1024 [0x48] 1 0
       \<lparr>rgba_buffer = [1, 1, 1, 1]\<rparr> (Some \<lparr>rgba_buffer = [0, 0, 0, 1]\<rparr>) (Some 3)
       \<lparr>toy_width = 2, toy_height = 3, toy_charPtr = 4096, toy_calls = []\<rparr>) =
     [BufferDrawText 1024 [0x48] 1 1 0 [1, 1, 1, 1] (Some [0, 0, 0, 1]) 3]"
proof -
  let ?s = "\<lparr>toy_width = 2, toy_height = 3, toy_charPtr = 4096, toy_calls = []\<rparr>"
  have one: "TextEncoder_encode [0x48] = [0x48]"
    by (simp add: TextEncoder_encode_def utf8_bytes_def is_lead_surrogate_def is_trail_surrogate_def)
  from bufferDrawText_marshalling
         [of toy_engine 1024 "[0x48, 0xE9, 0x20AC, 0xD83D, 0xDE00, 0xDC00]" 1 0
             "\<lparr>rgba_buffer = [1, 1, 1, 1]\<rparr>" None None ?s]
       bufferDrawText_marshalling
         [of toy_engine 1024 "[0x48]" 1 0
             "\<lparr>rgba_buffer = [1, 1, 1, 1]\<rparr>" "Some \<lparr>rgba_buffer = [0, 0, 0, 1]\<rparr>" "Some 3" ?s]
  show ?thesis
    by (simp add: toy_engine_calls TextEncoder_encode_example one)
qed

text \<open>
  C9. The code point \<^verbatim>\<open>bufferSetCellWithAlphaBlending\<close> passes to the native call is
  the first code point of \<^verbatim>\<open>char\<close> when \<^verbatim>\<open>char\<close> is not empty and the space U+0020
  (\<open>32\<close>) when it is empty; the code points after the first have no influence.
\<close>

theorem bufferSetCellWithAlphaBlending_first_code_point:
  "bufferSetCellWithAlphaBlending lib buffer x y char color bgColor attributes s =
     sym_bufferSetCellWithAlphaBlending lib buffer x y
       (case StringToCodePoints char of [] \<Rightarrow> 32 | cp # rest \<Rightarrow> cp)
       (rgba_buffer color) (rgba_buffer bgColor)
       (case attributes of None \<Rightarrow> 0 | Some a \<Rightarrow> a) s
   \<and> (StringToCodePoints char = [] \<longleftrightarrow> char = [])"
proof -
  have "nullish (codePointAt char 0) (the (codePointAt [0x20] 0)) =
        (case StringToCodePoints char of [] \<Rightarrow> 32 | cp # rest \<Rightarrow> cp)"
    by (simp add: codePointAt_first codePointAt_space split: list.split)
  moreover have "nullish attributes 0 = (case attributes of None \<Rightarrow> 0 | Some a \<Rightarrow> a)"
    by (cases attributes) simp_all
  moreover have "StringToCodePoints char = [] \<longleftrightarrow> char = []"
    by (cases char rule: StringToCodePoints.cases) simp_all
  ultimately show ?thesis
    by (simp add: bufferSetCellWithAlphaBlending_def)
qed

theorem bufferSetCellWithAlphaBlending_first_code_point_witness:
  "toy_calls (bufferSetCellWithAlphaBlending toy_engine 1024 1 0 [0xD83D, 0xDE00, 0x41]
       \<lparr>rgba_buffer = [1, 1, 1, 1]\<rparr> \<lparr>rgba_buffer = [0, 0, 0, 1]\<rparr> None
       \<lparr>toy_width = 2, toy_height = 3, toy_charPtr = 4096, toy_calls = []\<rparr>) =
     [BufferSetCellWithAlphaBlending 1024 1 0 0x1F600 [1, 1, 1, 1] [0, 0, 0, 1] 0]
   \<and> toy_calls (bufferSetCellWithAlphaBlending toy_engine 1024 1 0 []
       \<lparr>rgba_buffer = [1, 1, 1, 1]\<rparr> \<lparr>rgba_buffer = [0, 0, 0, 1]\<rparr> (Some 5)
       \<lparr>toy_width = 2, toy_height = 3, toy_charPtr = 4096, toy_calls = []\<rparr>) =
     [BufferSetCellWithAlphaBlending 1024 1 0 32 [1, 1, 1, 1] [0, 0, 0, 1] 5]"
proof -
  let ?s = "\<lparr>toy_width = 2, toy_height = 3, toy_charPtr = 4096, toy_calls = []\<rparr>"
  from bufferSetCellWithAlphaBlending_first_code_point
         [of toy_engine 1024 1 0 "[0xD83D, 0xDE00, 0x41]"
             "\<lparr>rgba_buffer = [1, 1, 1, 1]\<rparr>" "\<lparr>rgba_buffer = [0, 0, 0, 1]\<rparr>" None ?s]
       bufferSetCellWithAlphaBlending_first_code_point
         [of toy_engine 1024 1 0 "[]"
             "\<lparr>rgba_buffer = [1, 1, 1, 1]\<rparr>" "\<lparr>rgba_buffer = [0, 0, 0, 1]\<rparr>" "Some 5" ?s]
  show ?thesis
    by (simp add: toy_engine_calls is_lead_surrogate_def is_trail_surrogate_def
          UTF16SurrogatePairToCodePoint_def)
qed

subsection \<open>Buffers and their views\<close>

lemma getBuffer_eq:
  "getBuffer lib bufferPtr size' s =
     (if array_pointer_null lib bufferPtr s then Inl (Error ''Failed to get buffer pointers'')
      else Inr (views_of lib bufferPtr size' s))"
  by (simp add: getBuffer_def array_pointer_null_def views_of_def Let_def
        new_TypedArray_def toArrayBuffer_def)

lemma has_view_lengths_views_of: "has_view_lengths (views_of lib bufferPtr (w * h) s) w h"
  by (simp add: has_view_lengths_def views_of_def)

lemma createOptimizedBuffer_eq:
  "createOptimizedBuffer lib width height respectAlpha s =
     (let ra = (case respectAlpha of None \<Rightarrow> False | Some b \<Rightarrow> b);
          bufferPtr = fst (sym_createOptimizedBuffer lib width height ra s);
          s1 = snd (sym_createOptimizedBuffer lib width height ra s)
      in if bufferPtr = 0 then (Inl (Error ''Failed to create optimized buffer''), s1)
         else if array_pointer_null lib bufferPtr s1
         then (Inl (Error ''Failed to get buffer pointers''), s1)
         else (Inr \<lparr>ob_ptr = bufferPtr, ob_buffers = views_of lib bufferPtr (width * height) s1,
                     ob_width = width, ob_height = height, ob_respectAlpha = Some ra\<rparr>, s1))"
  by (cases respectAlpha) (simp_all add: createOptimizedBuffer_def getBuffer_eq Let_def split: prod.split)

lemma getNextBuffer_eq:
  "getNextBuffer lib renderer s =
     (let bufferPtr = fst (sym_getNextBuffer lib renderer s);
          s1 = snd (sym_getNextBuffer lib renderer s)
      in if bufferPtr = 0 then (Inl (Error ''Failed to get next buffer''), s1)
         else if array_pointer_null lib bufferPtr s1
         then (Inl (Error ''Failed to get buffer pointers''), s1)
         else (Inr \<lparr>ob_ptr = bufferPtr,
                     ob_buffers = views_of lib bufferPtr
                       (sym_getBufferWidth lib bufferPtr s1 * sym_getBufferHeight lib bufferPtr s1) s1,
                     ob_width = sym_getBufferWidth lib bufferPtr s1,
                     ob_height = sym_getBufferHeight lib bufferPtr s1,
                     ob_respectAlpha = None\<rparr>, s1))"
  by (simp add: getNextBuffer_def getBuffer_eq Let_def split: prod.split)

lemma getCurrentBuffer_eq:
  "getCurrentBuffer lib renderer s =
     (let bufferPtr = fst (sym_getCurrentBuffer lib renderer s);
          s1 = snd (sym_getCurrentBuffer lib renderer s)
      in if bufferPtr = 0 then (Inl (Error ''Failed to get current buffer''), s1)
         else if array_pointer_null lib bufferPtr s1
         then (Inl (Error ''Failed to get buffer pointers''), s1)
         else (Inr \<lparr>ob_ptr = bufferPtr,
                     ob_buffers = views_of lib bufferPtr
                       (sym_getBufferWidth lib bufferPtr s1 * sym_getBufferHeight lib bufferPtr s1) s1,
                     ob_width = sym_getBufferWidth lib bufferPtr s1,
                     ob_height = sym_getBufferHeight lib bufferPtr s1,
                     ob_respectAlpha = None\<rparr>, s1))"
  by (simp add: getCurrentBuffer_def getBuffer_eq Let_def split: prod.split)

text \<open>
  C3. As stated (\<^verbatim>\<open>createOptimizedBuffer\<close> raises an error if and only if the native
  \<^verbatim>\<open>createOptimizedBuffer\<close> returns a null pointer) the claim fails: with an engine
  that returns a buffer pointer but reports a null character array for it, the
  native call returns a non-null pointer and the method still raises.
\<close>

theorem createOptimizedBuffer_raises_counterexample:
  "fst (sym_createOptimizedBuffer toy_engine 2 3 False
          \<lparr>toy_width = 0, toy_height = 0, toy_charPtr = 0, toy_calls = []\<rparr>) \<noteq> 0
   \<and> fst (createOptimizedBuffer toy_engine 2 3 None
          \<lparr>toy_width = 0, toy_height = 0, toy_charPtr = 0, toy_calls = []\<rparr>) =
       Inl (Error ''Failed to get buffer pointers'')"
  by (simp add: createOptimizedBuffer_eq toy_engine_sel array_pointer_null_def)

text \<open>
  C3, amended. \<^verbatim>\<open>createOptimizedBuffer\<close> raises \<^verbatim>\<open>Failed to create optimized buffer\<close>
  if and only if the native \<^verbatim>\<open>createOptimizedBuffer\<close> returns a null pointer; it raises
  an error at all if and only if that pointer is null or one of the four array
  pointers of the new buffer is null (then \<^verbatim>\<open>Failed to get buffer pointers\<close>), and
  otherwise it returns the wrapped buffer. \<^verbatim>\<open>createRenderer\<close> returns what the native
  \<^verbatim>\<open>createRenderer\<close> returns, so a failed renderer allocation is a null handle and
  never a raised error.
\<close>

theorem createOptimizedBuffer_failure_result:
  "(fst (createOptimizedBuffer lib width height respectAlpha s) =
       Inl (Error ''Failed to create optimized buffer'')
     \<longleftrightarrow> fst (sym_createOptimizedBuffer lib width height (case respectAlpha of None \<Rightarrow> False | Some b \<Rightarrow> b) s) = 0)
   \<and> (isl (fst (createOptimizedBuffer lib width height respectAlpha s))
     \<longleftrightarrow> fst (sym_createOptimizedBuffer lib width height (case respectAlpha of None \<Rightarrow> False | Some b \<Rightarrow> b) s) = 0
         \<or> array_pointer_null lib
             (fst (sym_createOptimizedBuffer lib width height (case respectAlpha of None \<Rightarrow> False | Some b \<Rightarrow> b) s))
             (snd (sym_createOptimizedBuffer lib width height (case respectAlpha of None \<Rightarrow> False | Some b \<Rightarrow> b) s)))
   \<and> createOptimizedBuffer lib width height respectAlpha s =
       (let ra = (case respectAlpha of None \<Rightarrow> False | Some b \<Rightarrow> b);
            bufferPtr = fst (sym_createOptimizedBuffer lib width height ra s);
            s1 = snd (sym_createOptimizedBuffer lib width height ra s)
        in if bufferPtr = 0 then (Inl (Error ''Failed to create optimized buffer''), s1)
           else if array_pointer_null lib bufferPtr s1
           then (Inl (Error ''Failed to get buffer pointers''), s1)
           else (Inr \<lparr>ob_ptr = bufferPtr, ob_buffers = views_of lib bufferPtr (width * height) s1,
                       ob_width = width, ob_height = height, ob_respectAlpha = Some ra\<rparr>, s1))
   \<and> createRenderer lib width height s = sym_createRenderer lib width height s"
  by (simp add: createOptimizedBuffer_eq createRenderer_def Let_def)

text \<open>
  C4. As stated (the view lengths of a buffer returned by \<^verbatim>\<open>createOptimizedBuffer\<close> are
  those of the width and height the engine reports for it) the claim fails:
  \<^verbatim>\<open>createOptimizedBuffer\<close> never reads the size back. With an engine that reports the
  width \<open>7\<close> and the height \<open>3\<close> for the buffer it creates on the request \<open>2\<close> by \<open>3\<close>,
  the method returns a buffer whose \<^verbatim>\<open>char\<close> view has \<open>6\<close> elements, not \<open>21\<close>.
\<close>

theorem createOptimizedBuffer_reported_size_counterexample:
  "createOptimizedBuffer toy_engine_width7 2 3 None
       \<lparr>toy_width = 0, toy_height = 0, toy_charPtr = 4096, toy_calls = []\<rparr> =
     (Inr \<lparr>ob_ptr = 1024,
           ob_buffers = views_of toy_engine_width7 1024 6
             \<lparr>toy_width = 2, toy_height = 3, toy_charPtr = 4096, toy_calls = []\<rparr>,
           ob_width = 2, ob_height = 3, ob_respectAlpha = Some False\<rparr>,
      \<lparr>toy_width = 2, toy_height = 3, toy_charPtr = 4096, toy_calls = []\<rparr>)
   \<and> sym_getBufferWidth toy_engine_width7 1024
       \<lparr>toy_width = 2, toy_height = 3, toy_charPtr = 4096, toy_calls = []\<rparr> = 7
   \<and> sym_getBufferHeight toy_engine_width7 1024
       \<lparr>toy_width = 2, toy_height = 3, toy_charPtr = 4096, toy_calls = []\<rparr> = 3
   \<and> ta_length (buf_char (views_of toy_engine_width7 1024 6
       \<lparr>toy_width = 2, toy_height = 3, toy_charPtr = 4096, toy_calls = []\<rparr>)) = 6
   \<and> \<not> has_view_lengths (views_of toy_engine_width7 1024 6
       \<lparr>toy_width = 2, toy_height = 3, toy_charPtr = 4096, toy_calls = []\<rparr>) 7 3"
  by (simp add: createOptimizedBuffer_eq toy_engine_width7_def toy_engine_def array_pointer_null_def
        views_of_def has_view_lengths_def)

text \<open>
  C4, amended. A buffer returned by \<^verbatim>\<open>getNextBuffer\<close> or \<^verbatim>\<open>getCurrentBuffer\<close> carries the
  width \<open>w\<close> and height \<open>h\<close> the engine reports for it, and a buffer returned by
  \<^verbatim>\<open>createOptimizedBuffer\<close> carries the width \<open>w\<close> and height \<open>h\<close> it was requested with
  (the values passed to the native \<^verbatim>\<open>createOptimizedBuffer\<close>, which are not read back).
  In both cases the four views have the lengths \<open>w * h\<close> (\<^verbatim>\<open>char\<close>, uint32),
  \<open>4 * (w * h)\<close> (\<^verbatim>\<open>fg\<close> and \<^verbatim>\<open>bg\<close>, float32) and \<open>w * h\<close> (\<^verbatim>\<open>attributes\<close>, uint8). If one
  of the four array pointers is null, each of the three operations raises an error
  instead of returning a buffer.
\<close>

theorem buffer_view_lengths:
  "(getNextBuffer lib renderer s = (Inr b, s') \<longrightarrow>
      has_view_lengths (ob_buffers b)
        (sym_getBufferWidth lib (ob_ptr b) s') (sym_getBufferHeight lib (ob_ptr b) s')
      \<and> ob_width b = sym_getBufferWidth lib (ob_ptr b) s'
      \<and> ob_height b = sym_getBufferHeight lib (ob_ptr b) s')
   \<and> (getCurrentBuffer lib renderer s = (Inr b, s') \<longrightarrow>
      has_view_lengths (ob_buffers b)
        (sym_getBufferWidth lib (ob_ptr b) s') (sym_getBufferHeight lib (ob_ptr b) s')
      \<and> ob_width b = sym_getBufferWidth lib (ob_ptr b) s'
      \<and> ob_height b = sym_getBufferHeight lib (ob_ptr b) s')
   \<and> (createOptimizedBuffer lib w h respectAlpha s = (Inr b, s') \<longrightarrow>
      has_view_lengths (ob_buffers b) w h \<and> ob_width b = w \<and> ob_height b = h)
   \<and> (array_pointer_null lib (fst (sym_getNextBuffer lib renderer s))
         (snd (sym_getNextBuffer lib renderer s)) \<longrightarrow>
       isl (fst (getNextBuffer lib renderer s)))
   \<and> (array_pointer_null lib (fst (sym_getCurrentBuffer lib renderer s))
         (snd (sym_getCurrentBuffer lib renderer s)) \<longrightarrow>
       isl (fst (getCurrentBuffer lib renderer s)))
   \<and> (array_pointer_null lib
         (fst (sym_createOptimizedBuffer lib w h (case respectAlpha of None \<Rightarrow> False | Some b \<Rightarrow> b) s))
         (snd (sym_createOptimizedBuffer lib w h (case respectAlpha of None \<Rightarrow> False | Some b \<Rightarrow> b) s)) \<longrightarrow>
       isl (fst (createOptimizedBuffer lib w h respectAlpha s)))"
proof -
  have nxt: "getNextBuffer lib renderer s = (Inr b, s') \<Longrightarrow>
      has_view_lengths (ob_buffers b)
        (sym_getBufferWidth lib (ob_ptr b) s') (sym_getBufferHeight lib (ob_ptr b) s')
      \<and> ob_width b = sym_getBufferWidth lib (ob_ptr b) s'
      \<and> ob_height b = sym_getBufferHeight lib (ob_ptr b) s'"
    by (auto simp add: getNextBuffer_eq Let_def has_view_lengths_views_of split: if_splits)
  have cur: "getCurrentBuffer lib renderer s = (Inr b, s') \<Longrightarrow>
      has_view_lengths (ob_buffers b)
        (sym_getBufferWidth lib (ob_ptr b) s') (sym_getBufferHeight lib (ob_ptr b) s')
      \<and> ob_width b = sym_getBufferWidth lib (ob_ptr b) s'
      \<and> ob_height b = sym_getBufferHeight lib (ob_ptr b) s'"
    by (auto simp add: getCurrentBuffer_eq Let_def has_view_lengths_views_of split: if_splits)
  have cre: "createOptimizedBuffer lib w h respectAlpha s = (Inr b, s') \<Longrightarrow>
      has_view_lengths (ob_buffers b) w h \<and> ob_width b = w \<and> ob_height b = h"
    by (auto simp add: createOptimizedBuffer_eq Let_def has_view_lengths_views_of split: if_splits)
  have nulls:
    "array_pointer_null lib (fst (sym_getNextBuffer lib renderer s))
         (snd (sym_getNextBuffer lib renderer s)) \<Longrightarrow>
       isl (fst (getNextBuffer lib renderer s))"
    "array_pointer_null lib (fst (sym_getCurrentBuffer lib renderer s))
         (snd (sym_getCurrentBuffer lib renderer s)) \<Longrightarrow>
       isl (fst (getCurrentBuffer lib renderer s))"
    "array_pointer_null lib
         (fst (sym_createOptimizedBuffer lib w h (case respectAlpha of None \<Rightarrow> False | Some b \<Rightarrow> b) s))
         (snd (sym_createOptimizedBuffer lib w h (case respectAlpha of None \<Rightarrow> False | Some b \<Rightarrow> b) s)) \<Longrightarrow>
       isl (fst (createOptimizedBuffer lib w h respectAlpha s))"
    by (simp_all add: getNextBuffer_eq getCurrentBuffer_eq createOptimizedBuffer_eq Let_def)
  from nxt cur cre nulls show ?thesis by metis
qed

theorem buffer_view_lengths_witness:
  "(\<exists>b. getNextBuffer toy_engine 256 \<lparr>toy_width = 2, toy_height = 3, toy_charPtr = 4096, toy_calls = []\<rparr> =
          (Inr b, \<lparr>toy_width = 2, toy_height = 3, toy_charPtr = 4096, toy_calls = []\<rparr>)
        \<and> ob_ptr b = 512 \<and> has_view_lengths (ob_buffers b) 2 3 \<and> ob_width b = 2 \<and> ob_height b = 3)
   \<and> (\<exists>b. getCurrentBuffer toy_engine 256 \<lparr>toy_width = 2, toy_height = 3, toy_charPtr = 4096, toy_calls = []\<rparr> =
          (Inr b, \<lparr>toy_width = 2, toy_height = 3, toy_charPtr = 4096, toy_calls = []\<rparr>)
        \<and> ob_ptr b = 768 \<and> has_view_lengths (ob_buffers b) 2 3 \<and> ob_width b = 2 \<and> ob_height b = 3)
   \<and> (\<exists>b. createOptimizedBuffer toy_engine 2 3 None \<lparr>toy_width = 0, toy_height = 0, toy_charPtr = 4096, toy_calls = []\<rparr> =
          (Inr b, \<lparr>toy_width = 2, toy_height = 3, toy_charPtr = 4096, toy_calls = []\<rparr>)
        \<and> ob_ptr b = 1024 \<and> has_view_lengths (ob_buffers b) 2 3 \<and> ob_width b = 2 \<and> ob_height b = 3)
   \<and> array_pointer_null toy_engine 512 \<lparr>toy_width = 2, toy_height = 3, toy_charPtr = 0, toy_calls = []\<rparr>
   \<and> isl (fst (getNextBuffer toy_engine 256 \<lparr>toy_width = 2, toy_height = 3, toy_charPtr = 0, toy_calls = []\<rparr>))
   \<and> isl (fst (getCurrentBuffer toy_engine 256 \<lparr>toy_width = 2, toy_height = 3, toy_charPtr = 0, toy_calls = []\<rparr>))
   \<and> isl (fst (createOptimizedBuffer toy_engine 2 3 None \<lparr>toy_width = 2, toy_height = 3, toy_charPtr = 0, toy_calls = []\<rparr>))"
proof -
  let ?G = "\<lparr>toy_width = 2, toy_height = 3, toy_charPtr = 4096, toy_calls = []\<rparr>"
  let ?Z = "\<lparr>toy_width = 0, toy_height = 0, toy_charPtr = 4096, toy_calls = []\<rparr>"
  let ?N = "\<lparr>toy_width = 2, toy_height = 3, toy_charPtr = 0, toy_calls = []\<rparr>"
  obtain bn where bn: "getNextBuffer toy_engine 256 ?G = (Inr bn, ?G)" "ob_ptr bn = 512"
    by (simp add: getNextBuffer_eq toy_engine_sel array_pointer_null_def Let_def)
  obtain bc where bc: "getCurrentBuffer toy_engine 256 ?G = (Inr bc, ?G)" "ob_ptr bc = 768"
    by (simp add: getCurrentBuffer_eq toy_engine_sel array_pointer_null_def Let_def)
  obtain bo where bo: "createOptimizedBuffer toy_engine 2 3 None ?Z = (Inr bo, ?G)" "ob_ptr bo = 1024"
    by (simp add: createOptimizedBuffer_eq toy_engine_sel array_pointer_null_def Let_def)
  have nul: "array_pointer_null toy_engine 512 ?N"
    by (simp add: toy_engine_sel array_pointer_null_def)
  have n1: "fst (sym_getNextBuffer toy_engine 256 ?N) = 512" "snd (sym_getNextBuffer toy_engine 256 ?N) = ?N"
    "fst (sym_getCurrentBuffer toy_engine 256 ?N) = 768" "snd (sym_getCurrentBuffer toy_engine 256 ?N) = ?N"
    "fst (sym_createOptimizedBuffer toy_engine 2 3 False ?N) = 1024"
    "snd (sym_createOptimizedBuffer toy_engine 2 3 False ?N) = ?N"
    by (simp_all add: toy_engine_sel)
  have nul': "array_pointer_null toy_engine 768 ?N" "array_pointer_null toy_engine 1024 ?N"
    by (simp_all add: toy_engine_sel array_pointer_null_def)
  have w: "sym_getBufferWidth toy_engine p ?G = 2" "sym_getBufferHeight toy_engine p ?G = 3" for p
    by (simp_all add: toy_engine_sel)
  note a = buffer_view_lengths [of toy_engine 256 ?G bn ?G 2 3 None]
  note b = buffer_view_lengths [of toy_engine 256 ?G bc ?G 2 3 None]
  note c = buffer_view_lengths [of toy_engine 256 ?Z bo ?G 2 3 None]
  note d = buffer_view_lengths [of toy_engine 256 ?N bn ?N 2 3 None]
  from a bn w have 1: "has_view_lengths (ob_buffers bn) 2 3 \<and> ob_width bn = 2 \<and> ob_height bn = 3"
    by simp
  from b bc w have 2: "has_view_lengths (ob_buffers bc) 2 3 \<and> ob_width bc = 2 \<and> ob_height bc = 3"
    by simp
  from c bo have 3: "has_view_lengths (ob_buffers bo) 2 3 \<and> ob_width bo = 2 \<and> ob_height bo = 3"
    by simp
  from d nul nul' n1 have 4: "isl (fst (getNextBuffer toy_engine 256 ?N))"
    "isl (fst (getCurrentBuffer toy_engine 256 ?N))"
    "isl (fst (createOptimizedBuffer toy_engine 2 3 None ?N))"
    by simp_all
  from bn bc bo 1 2 3 4 nul show ?thesis by blast
qed

text \<open>
  C5. \<^verbatim>\<open>bufferResize(buffer, w, h)\<close> first lets the engine resize and then builds all
  four views from the array pointers of the resized buffer: it returns either all
  four, with the lengths of a \<open>w\<close> by \<open>h\<close> buffer, or (a null array pointer) none
  and an error.
\<close>

theorem bufferResize_views:
  "bufferResize lib buffer w h s =
     (if array_pointer_null lib buffer (sym_bufferResize lib buffer w h s)
      then Inl (Error ''Failed to get buffer pointers'')
      else Inr (views_of lib buffer (w * h) (sym_bufferResize lib buffer w h s)),
      sym_bufferResize lib buffer w h s)
   \<and> has_view_lengths (views_of lib buffer (w * h) (sym_bufferResize lib buffer w h s)) w h"
  by (simp add: bufferResize_def getBuffer_eq Let_def has_view_lengths_views_of)

theorem bufferResize_views_witness:
  "bufferResize toy_engine 1024 4 5 \<lparr>toy_width = 2, toy_height = 3, toy_charPtr = 4096, toy_calls = []\<rparr> =
     (Inr (views_of toy_engine 1024 20 \<lparr>toy_width = 4, toy_height = 5, toy_charPtr = 4096, toy_calls = []\<rparr>),
      \<lparr>toy_width = 4, toy_height = 5, toy_charPtr = 4096, toy_calls = []\<rparr>)
   \<and> ta_length (buf_char (views_of toy_engine 1024 20 \<lparr>toy_width = 4, toy_height = 5, toy_charPtr = 4096, toy_calls = []\<rparr>)) = 20
   \<and> ta_length (buf_fg (views_of toy_engine 1024 20 \<lparr>toy_width = 4, toy_height = 5, toy_charPtr = 4096, toy_calls = []\<rparr>)) = 80
   \<and> ta_length (buf_bg (views_of toy_engine 1024 20 \<lparr>toy_width = 4, toy_height = 5, toy_charPtr = 4096, toy_calls = []\<rparr>)) = 80
   \<and> ta_length (buf_attributes (views_of toy_engine 1024 20 \<lparr>toy_width = 4, toy_height = 5, toy_charPtr = 4096, toy_calls = []\<rparr>)) = 20"
  using bufferResize_views [of toy_engine 1024 4 5 "\<lparr>toy_width = 2, toy_height = 3, toy_charPtr = 4096, toy_calls = []\<rparr>"]
  by (simp add: toy_engine_sel array_pointer_null_def has_view_lengths_def)

subsection \<open>The memoized library instance\<close>

lemma run_calls_resolved:
  "opentuiLib st = Some l \<Longrightarrow>
   run_calls env cs st =
     (map (\<lambda>c. Inr l) (filter (\<lambda>c. c = ResolveRenderLib) cs),
      st\<lparr>opentuiLibPath := fold (\<lambda>c p. case c of SetRenderLibPath q \<Rightarrow> Some q | ResolveRenderLib \<Rightarrow> p)
                                cs (opentuiLibPath st)\<rparr>)"
proof (induction cs arbitrary: st)
  case Nil
  then show ?case by simp
next
  case (Cons c cs)
  show ?case
  proof (cases c)
    case (SetRenderLibPath p)
    have "opentuiLib (setRenderLibPath p st) = Some l"
      using Cons.prems by (simp add: setRenderLibPath_def)
    from Cons.IH [OF this] show ?thesis
      using SetRenderLibPath by (simp add: setRenderLibPath_def)
  next
    case ResolveRenderLib
    have "resolveRenderLib env st = (Inr l, st)"
      using Cons.prems by (simp add: resolveRenderLib_def)
    with Cons.IH [OF Cons.prems] show ?thesis
      using ResolveRenderLib by simp
  qed
qed

lemma set_paths:
  "opentuiLibPath (fold setRenderLibPath ps st) = (if ps = [] then opentuiLibPath st else Some (last ps))"
  by (induction ps arbitrary: st) (simp_all add: setRenderLibPath_def)

lemma fold_set_other:
  "opentuiLib (fold setRenderLibPath ps st) = opentuiLib st"
  "constructed (fold setRenderLibPath ps st) = constructed st"
  by (induction ps arbitrary: st) (simp_all add: setRenderLibPath_def)

text \<open>
  C10. \<^verbatim>\<open>resolveRenderLib\<close> is memoized. When the first call, made after any
  number of \<^verbatim>\<open>setRenderLibPath\<close> calls, returns an instance, that instance is the
  \<^verbatim>\<open>FFIRenderLib\<close> constructed with the path set last (with no path when none was set,
  and then the library opened is the discovered default; with a non-empty path the
  library opened is the one at that path). Every later \<^verbatim>\<open>resolveRenderLib\<close> call, with
  \<^verbatim>\<open>setRenderLibPath\<close> calls in between or not, returns this same instance, and no
  second instance is constructed.
\<close>

theorem resolveRenderLib_memoized:
  "resolveRenderLib env (fold setRenderLibPath ps initial_module_state) = (Inr l, st1) \<longrightarrow>
     new_FFIRenderLib env 0 (if ps = [] then None else Some (last ps)) = Inr l
     \<and> (ps = [] \<longrightarrow> (\<exists>p. findLibrary env = Inr p \<and> env_dlopen env p = Some (opentui l)))
     \<and> (ps \<noteq> [] \<and> last ps \<noteq> [] \<longrightarrow> env_dlopen env (last ps) = Some (opentui l))
     \<and> fst (run_calls env cs st1) = map (\<lambda>c. Inr l) (filter (\<lambda>c. c = ResolveRenderLib) cs)
     \<and> opentuiLib (snd (run_calls env cs st1)) = Some l
     \<and> constructed (snd (run_calls env cs st1)) = 1"
proof
  let ?st0 = "fold setRenderLibPath ps (initial_module_state :: 'a module_state)"
  assume r: "resolveRenderLib env ?st0 = (Inr l, st1)"
  have none: "opentuiLib ?st0 = None" and zero: "constructed ?st0 = 0"
    by (simp_all add: fold_set_other initial_module_state_def)
  have path: "opentuiLibPath ?st0 = (if ps = [] then None else Some (last ps))"
    by (simp add: set_paths initial_module_state_def)
  from r none zero path
  have new: "new_FFIRenderLib env 0 (if ps = [] then None else Some (last ps)) = Inr l"
    and st1: "st1 = ?st0\<lparr>opentuiLib := Some l, constructed := Suc 0\<rparr>"
    by (auto simp add: resolveRenderLib_def split: sum.splits)
  have dflt: "ps = [] \<longrightarrow> (\<exists>p. findLibrary env = Inr p \<and> env_dlopen env p = Some (opentui l))"
    using new
    by (auto simp add: new_FFIRenderLib_def getOpenTUILib_def resolvedLibPath_def
          split: sum.splits option.splits)
  have "opentuiLib st1 = Some l" using st1 by simp
  have given: "ps \<noteq> [] \<and> last ps \<noteq> [] \<longrightarrow> env_dlopen env (last ps) = Some (opentui l)"
    using new
    by (auto simp add: new_FFIRenderLib_def getOpenTUILib_def resolvedLibPath_def
          split: sum.splits option.splits)
  from run_calls_resolved [OF \<open>opentuiLib st1 = Some l\<close>, of env cs] st1 new dflt given show
    "new_FFIRenderLib env 0 (if ps = [] then None else Some (last ps)) = Inr l
     \<and> (ps = [] \<longrightarrow> (\<exists>p. findLibrary env = Inr p \<and> env_dlopen env p = Some (opentui l)))
     \<and> (ps \<noteq> [] \<and> last ps \<noteq> [] \<longrightarrow> env_dlopen env (last ps) = Some (opentui l))
     \<and> fst (run_calls env cs st1) = map (\<lambda>c. Inr l) (filter (\<lambda>c. c = ResolveRenderLib) cs)
     \<and> opentuiLib (snd (run_calls env cs st1)) = Some l
     \<and> constructed (snd (run_calls env cs st1)) = 1"
    by simp
qed

theorem resolveRenderLib_memoized_witness:
  "resolveRenderLib toy_environment (fold setRenderLibPath [''/a.so'', ''/b.so''] initial_module_state) =
     (Inr \<lparr>lib_identity = 0, opentui = ''/b.so''\<rparr>,
      \<lparr>opentuiLibPath = Some ''/b.so'', opentuiLib = Some \<lparr>lib_identity = 0, opentui = ''/b.so''\<rparr>,
       constructed = 1\<rparr>)
   \<and> fst (run_calls toy_environment [ResolveRenderLib, SetRenderLibPath ''/c.so'', ResolveRenderLib]
        \<lparr>opentuiLibPath = Some ''/b.so'', opentuiLib = Some \<lparr>lib_identity = 0, opentui = ''/b.so''\<rparr>,
         constructed = 1\<rparr>) =
       [Inr \<lparr>lib_identity = 0, opentui = ''/b.so''\<rparr>, Inr \<lparr>lib_identity = 0, opentui = ''/b.so''\<rparr>]
   \<and> resolveRenderLib toy_environment (fold setRenderLibPath [] initial_module_state) =
     (Inr \<lparr>lib_identity = 0, opentui = ''/node_modules/opentui-linux-x64/libopentui.so''\<rparr>,
      \<lparr>opentuiLibPath = None,
       opentuiLib = Some \<lparr>lib_identity = 0, opentui = ''/node_modules/opentui-linux-x64/libopentui.so''\<rparr>,
       constructed = 1\<rparr>)
   \<and> findLibrary toy_environment = Inr ''/node_modules/opentui-linux-x64/libopentui.so''"
proof -
  let ?l = "\<lparr>lib_identity = 0, opentui = ''/b.so''\<rparr>"
  let ?s = "\<lparr>opentuiLibPath = Some ''/b.so'', opentuiLib = Some ?l, constructed = 1\<rparr>"
  let ?d = "\<lparr>lib_identity = 0, opentui = ''/node_modules/opentui-linux-x64/libopentui.so''\<rparr>"
  let ?t = "\<lparr>opentuiLibPath = None, opentuiLib = Some ?d, constructed = 1\<rparr>"
  have f: "findLibrary toy_environment = Inr ''/node_modules/opentui-linux-x64/libopentui.so''"
    by (simp add: findLibrary_def toy_environment_def)
  have a: "resolveRenderLib toy_environment
             (fold setRenderLibPath [''/a.so'', ''/b.so''] initial_module_state) = (Inr ?l, ?s)"
    by (simp add: resolveRenderLib_def new_FFIRenderLib_def getOpenTUILib_def resolvedLibPath_def
          setRenderLibPath_def initial_module_state_def toy_environment_def)
  have b: "resolveRenderLib toy_environment (fold setRenderLibPath [] initial_module_state) = (Inr ?d, ?t)"
    by (simp add: resolveRenderLib_def new_FFIRenderLib_def getOpenTUILib_def resolvedLibPath_def f
          initial_module_state_def) (simp add: toy_environment_def)
  from resolveRenderLib_memoized
         [of toy_environment "[''/a.so'', ''/b.so'']" ?l ?s
             "[ResolveRenderLib, SetRenderLibPath ''/c.so'', ResolveRenderLib]"] a
  have 1: "fst (run_calls toy_environment
                 [ResolveRenderLib, SetRenderLibPath ''/c.so'', ResolveRenderLib] ?s) = [Inr ?l, Inr ?l]"
    by simp
  from resolveRenderLib_memoized [of toy_environment "[]" ?d ?t "[]"] b
  have 2: "\<exists>p. findLibrary toy_environment = Inr p \<and> env_dlopen toy_environment p = Some (opentui ?d)"
    by simp
  from a b 1 2 f show ?thesis by simp
qed

subsection \<open>HitGrid: last write wins, and clearing\<close>

text \<open>The binding hands the hit-grid calls and \<^verbatim>\<open>bufferFillRect\<close> to the engine with their
  arguments unchanged and in the same order.\<close>

lemma binding_forwards:
  "addToHitGrid lib renderer x y w h i s = sym_addToHitGrid lib renderer x y w h i s"
  "checkHit lib renderer x y s = sym_checkHit lib renderer x y s"
  "clearHitGrid lib renderer s = sym_clearHitGrid lib renderer s"
  "bufferFillRect lib buffer x y fw fh color s =
     sym_bufferFillRect lib buffer x y fw fh (rgba_buffer color) s"
  by (simp_all add: addToHitGrid_def checkHit_def clearHitGrid_def bufferFillRect_def)

lemma cell_index_less:
  assumes "x < (w::nat)" "y < h"
  shows "y * w + x < w * h"
proof -
  have "y * w + x < y * w + w" using assms by simp
  also have "\<dots> = (Suc y) * w" by simp
  also have "\<dots> \<le> h * w" using assms by (intro mult_le_mono1) simp
  finally show ?thesis by (simp add: mult.commute)
qed

lemma hg_wf_add: "hg_wf g \<Longrightarrow> hg_wf (hg_addToHitGrid g x y w h i)"
  by (simp add: hg_wf_def hg_addToHitGrid_def)

lemma hg_wf_new: "hg_wf (new_hit_grid w h)"
  by (simp add: hg_wf_def new_hit_grid_def)

lemma hg_width_add: "hg_width (hg_addToHitGrid g x y w h i) = hg_width g"
  by (simp add: hg_addToHitGrid_def)

lemma hg_in_grid_add: "hg_in_grid (hg_addToHitGrid g x y w h i) px py = hg_in_grid g px py"
  by (simp add: hg_in_grid_def hg_addToHitGrid_def)

lemma hg_checkHit_add:
  assumes "hg_wf g"
  shows "hg_checkHit (hg_addToHitGrid g x y w h i) px py =
     (if hg_in_grid g px py \<and> rect_covers x y (int w) (int h) px py then i else hg_checkHit g px py)"
proof (cases "hg_in_grid g px py")
  case False
  then show ?thesis by (simp add: hg_checkHit_def hg_in_grid_add)
next
  case True
  let ?W = "hg_width g"
  let ?n = "nat py * ?W + nat px"
  from True have px: "nat px < ?W" and py: "nat py < hg_height g" and nn: "0 \<le> px" "0 \<le> py"
    by (auto simp add: hg_in_grid_def)
  have lt: "?n < length (hg_ids g)"
    using cell_index_less [OF px py] assms by (simp add: hg_wf_def)
  have "hg_ids (hg_addToHitGrid g x y w h i) ! ?n =
        (if rect_covers x y (int w) (int h) (int (?n mod ?W)) (int (?n div ?W)) then i else hg_ids g ! ?n)"
    unfolding hg_addToHitGrid_def using lt by simp
  then have ids: "hg_ids (hg_addToHitGrid g x y w h i) ! ?n =
        (if rect_covers x y (int w) (int h) px py then i else hg_ids g ! ?n)"
    using px nn by simp
  have "hg_checkHit (hg_addToHitGrid g x y w h i) px py = hg_ids (hg_addToHitGrid g x y w h i) ! ?n"
    using True by (simp add: hg_checkHit_def hg_in_grid_add hg_width_add)
  moreover have "hg_checkHit g px py = hg_ids g ! ?n"
    using True by (simp add: hg_checkHit_def)
  ultimately show ?thesis
    using True ids by simp
qed

lemma hg_checkHit_clear: "hg_checkHit (hg_clearHitGrid g) x y = 0"
proof (cases "hg_in_grid g x y")
  case False
  then show ?thesis by (auto simp add: hg_checkHit_def hg_clearHitGrid_def hg_in_grid_def)
next
  case True
  then have "nat x < hg_width g" "nat y < hg_height g" by (auto simp add: hg_in_grid_def)
  from cell_index_less [OF this] show ?thesis
    by (simp add: hg_checkHit_def hg_clearHitGrid_def)
qed

lemma hg_checkHit_add_add:
  assumes "hg_wf g"
  shows "hg_checkHit (hg_addToHitGrid (hg_addToHitGrid g x1 y1 w1 h1 a) x2 y2 w2 h2 b) px py =
     (if hg_in_grid g px py \<and> rect_covers x2 y2 (int w2) (int h2) px py then b
      else if hg_in_grid g px py \<and> rect_covers x1 y1 (int w1) (int h1) px py then a
      else hg_checkHit g px py)"
  using assms by (simp add: hg_checkHit_add hg_wf_add hg_in_grid_add)

text \<open>
  C8. In a hit grid with one id per cell, a query after \<^verbatim>\<open>addToHitGrid\<close> returns the
  new id at the cells the rectangle covers and the previous answer elsewhere (last
  write wins). So in a grid that has the cell \<open>(7,7)\<close>, and with it \<open>(1,1)\<close>, after
  \<^verbatim>\<open>addToHitGrid(0,0,10,10,1)\<close> and then \<^verbatim>\<open>addToHitGrid(5,5,10,10,2)\<close>, \<^verbatim>\<open>checkHit(7,7)\<close> is
  \<open>2\<close> and \<^verbatim>\<open>checkHit(1,1)\<close> is \<open>1\<close>. After \<^verbatim>\<open>clearHitGrid()\<close> every \<^verbatim>\<open>checkHit(x,y)\<close> is
  \<open>0\<close>, whatever was registered before.
\<close>

theorem hit_grid_last_write_wins:
  "(hg_wf g \<longrightarrow>
      hg_checkHit (hg_addToHitGrid g x y w h i) px py =
        (if hg_in_grid g px py \<and> rect_covers x y (int w) (int h) px py then i
         else hg_checkHit g px py))
   \<and> (hg_wf g \<and> hg_in_grid g 7 7 \<longrightarrow>
      hg_checkHit (hg_addToHitGrid (hg_addToHitGrid g 0 0 10 10 1) 5 5 10 10 2) 7 7 = 2
      \<and> hg_checkHit (hg_addToHitGrid (hg_addToHitGrid g 0 0 10 10 1) 5 5 10 10 2) 1 1 = 1)
   \<and> hg_checkHit (hg_clearHitGrid g') x' y' = 0"
proof -
  have scenario:
    "hg_checkHit (hg_addToHitGrid (hg_addToHitGrid g 0 0 10 10 1) 5 5 10 10 2) 7 7 = 2
     \<and> hg_checkHit (hg_addToHitGrid (hg_addToHitGrid g 0 0 10 10 1) 5 5 10 10 2) 1 1 = 1"
    if wf: "hg_wf g" and in7: "hg_in_grid g 7 7"
  proof -
    have in1: "hg_in_grid g 1 1"
      using in7 by (simp add: hg_in_grid_def)
    show ?thesis
      using in7 in1 by (simp add: hg_checkHit_add_add [OF wf] rect_covers_def)
  qed
  from scenario show ?thesis
    by (simp add: hg_checkHit_add hg_checkHit_clear)
qed

theorem hit_grid_last_write_wins_witness:
  "hg_wf (new_hit_grid 80 24) \<and> hg_in_grid (new_hit_grid 80 24) 7 7
   \<and> hg_checkHit (hg_addToHitGrid (hg_addToHitGrid (new_hit_grid 80 24) 0 0 10 10 1) 5 5 10 10 2) 7 7 = 2
   \<and> hg_checkHit (hg_addToHitGrid (hg_addToHitGrid (new_hit_grid 80 24) 0 0 10 10 1) 5 5 10 10 2) 1 1 = 1
   \<and> hg_checkHit (hg_addToHitGrid (new_hit_grid 80 24) 3 4 2 2 9) 4 5 = 9
   \<and> hg_checkHit (hg_clearHitGrid
         (hg_addToHitGrid (hg_addToHitGrid (new_hit_grid 80 24) 0 0 10 10 1) 5 5 10 10 2)) 1 1 = 0"
proof -
  have wf: "hg_wf (new_hit_grid 80 24)" by (rule hg_wf_new)
  have dims: "hg_width (new_hit_grid 80 24) = 80" "hg_height (new_hit_grid 80 24) = 24"
    by (simp_all add: new_hit_grid_def)
  have inb: "hg_in_grid (new_hit_grid 80 24) 4 5" "hg_in_grid (new_hit_grid 80 24) 7 7"
    by (simp_all add: hg_in_grid_def dims)
  from hit_grid_last_write_wins
         [of "new_hit_grid 80 24" 3 4 2 2 9 4 5
             "hg_addToHitGrid (hg_addToHitGrid (new_hit_grid 80 24) 0 0 10 10 1) 5 5 10 10 2" 1 1]
       wf inb
  show ?thesis by (simp add: rect_covers_def)
qed

subsection \<open>CellBuffer: writes outside the bounds\<close>

lemma cb_setCell_outside: "\<not> cb_in_bounds b x y \<Longrightarrow> cb_setCellWithAlphaBlending b x y cp fg bg a = b"
  by (simp add: cb_setCellWithAlphaBlending_def)

lemma cb_drawTextCell_outside: "\<not> cb_in_bounds b x y \<Longrightarrow> cb_drawTextCell b x y cp fg bg a = b"
  by (simp add: cb_drawTextCell_def)

lemma cb_drawText_outside:
  "(\<And>i. i < length cps \<Longrightarrow> \<not> cb_in_bounds b (x + int i) y) \<Longrightarrow> cb_drawText b cps x y fg bg a = b"
proof (induction cps arbitrary: x)
  case Nil
  then show ?case by simp
next
  case (Cons cp cps)
  from Cons.prems [of 0] have out: "\<not> cb_in_bounds b x y" by simp
  have "cb_drawText b cps (x + 1) y fg bg a = b"
  proof (rule Cons.IH)
    fix i assume "i < length cps"
    with Cons.prems [of "Suc i"] show "\<not> cb_in_bounds b (x + 1 + int i) y"
      by (simp add: algebra_simps)
  qed
  with out show ?case by (simp add: cb_drawTextCell_outside)
qed

lemma cb_in_bounds_drawTextCell:
  "cb_in_bounds (cb_drawTextCell b x y cp fg bg a) px py = cb_in_bounds b px py"
  by (simp add: cb_drawTextCell_def cb_in_bounds_def Let_def)

lemma cb_drawText_visible_cells_from:
  "cb_drawText b cps (x + int n) y fg bg a =
     fold (\<lambda>(i, cp) b'. cb_drawTextCell b' (x + int i) y cp fg bg a)
       (filter (\<lambda>(i, cp). cb_in_bounds b (x + int i) y) (enumerate n cps)) b"
proof (induction cps arbitrary: b n)
  case Nil
  show ?case by simp
next
  case (Cons cp cps)
  let ?b1 = "cb_drawTextCell b (x + int n) y cp fg bg a"
  have same: "cb_in_bounds ?b1 px py = cb_in_bounds b px py" for px py
    by (rule cb_in_bounds_drawTextCell)
  have "cb_drawText b (cp # cps) (x + int n) y fg bg a =
        cb_drawText ?b1 cps (x + int (Suc n)) y fg bg a"
    by (simp add: algebra_simps)
  also have "\<dots> = fold (\<lambda>(i, cp) b'. cb_drawTextCell b' (x + int i) y cp fg bg a)
       (filter (\<lambda>(i, cp). cb_in_bounds b (x + int i) y) (enumerate (Suc n) cps)) ?b1"
    by (simp only: Cons.IH same)
  finally show ?case
    by (simp add: cb_drawTextCell_outside)
qed

lemma cb_drawText_visible_cells:
  "cb_drawText b cps x y fg bg a =
     fold (\<lambda>(i, cp) b'. cb_drawTextCell b' (x + int i) y cp fg bg a)
       (filter (\<lambda>(i, cp). cb_in_bounds b (x + int i) y) (enumerate 0 cps)) b"
  using cb_drawText_visible_cells_from [of b cps x 0 y fg bg a] by simp

lemma cb_fillRect_outside:
  assumes "\<And>px py. cb_in_bounds b px py \<Longrightarrow> \<not> rect_covers x y w h px py"
  shows "cb_fillRect b x y w h color = b"
proof -
  have "\<not> cb_filled b x y w h i" for i
    using assms by (auto simp add: cb_filled_def)
  then show ?thesis
    by (simp add: cb_fillRect_def map_nth)
qed

lemma cb_filled_clip:
  "cb_filled b x y w h i =
   cb_filled b (max x 0) (max y 0)
     (min (x + w) (int (cb_width b)) - max x 0) (min (y + h) (int (cb_height b)) - max y 0) i"
  by (auto simp add: cb_filled_def cb_in_bounds_def rect_covers_def)

lemma cb_fillRect_clip:
  "cb_fillRect b x y w h color =
   cb_fillRect b (max x 0) (max y 0)
     (min (x + w) (int (cb_width b)) - max x 0) (min (y + h) (int (cb_height b)) - max y 0) color"
proof -
  let ?w = "min (x + w) (int (cb_width b)) - max x 0"
  let ?h = "min (y + h) (int (cb_height b)) - max y 0"
  have empty: "\<not> cb_filled b x y w h i" if "w \<le> 0 \<or> h \<le> 0 \<or> ?w \<le> 0 \<or> ?h \<le> 0" for i
    using that by (auto simp add: cb_filled_def cb_in_bounds_def rect_covers_def)
  show ?thesis
  proof (cases "w \<le> 0 \<or> h \<le> 0")
    case True
    then have "?w \<le> 0 \<or> ?h \<le> 0" by auto
    with True show ?thesis by (auto simp add: cb_fillRect_def)
  next
    case False
    show ?thesis
    proof (cases "?w \<le> 0 \<or> ?h \<le> 0")
      case True
      then have "\<not> cb_filled b x y w h i" for i using empty by blast
      then have "cb_fillRect b x y w h color = b"
        using False by (simp add: cb_fillRect_def map_nth)
      moreover have "cb_fillRect b (max x 0) (max y 0) ?w ?h color = b"
        using True by (auto simp add: cb_fillRect_def)
      ultimately show ?thesis by simp
    next
      case nonempty: False
      have "cb_fillRect b (max x 0) (max y 0) ?w ?h color =
            b\<lparr>cb_char := map (\<lambda>i. if cb_filled b (max x 0) (max y 0) ?w ?h i then 32 else cb_char b ! i)
                            [0 ..< length (cb_char b)],
              cb_bg := map (\<lambda>i. if cb_filled b (max x 0) (max y 0) ?w ?h i then color else cb_bg b ! i)
                          [0 ..< length (cb_bg b)]\<rparr>"
        using nonempty unfolding cb_fillRect_def by (simp only: if_False)
      also have "\<dots> = b\<lparr>cb_char := map (\<lambda>i. if cb_filled b x y w h i then 32 else cb_char b ! i)
                            [0 ..< length (cb_char b)],
              cb_bg := map (\<lambda>i. if cb_filled b x y w h i then color else cb_bg b ! i)
                          [0 ..< length (cb_bg b)]\<rparr>"
        by (simp only: cb_filled_clip [symmetric])
      also have "\<dots> = cb_fillRect b x y w h color"
        using False unfolding cb_fillRect_def by (simp only: if_False)
      finally show ?thesis by simp
    qed
  qed
qed

text \<open>
  C7. For coordinates outside \<open>[0,width) x [0,height)\<close> a cell write leaves the buffer
  as it was: \<^verbatim>\<open>setCellWithAlphaBlending\<close> at such a coordinate returns the buffer
  unchanged; \<^verbatim>\<open>drawText\<close> skips a code point that falls outside, returns the buffer
  unchanged when all its code points fall outside, and in general does what writing
  only the code points that fall inside does; \<^verbatim>\<open>fillRect\<close> returns the
  buffer unchanged when the rectangle covers no cell of the buffer, and in general
  does what filling the rectangle clipped to the bounds does. The three operations
  are total functions on buffers: there is no error result.
\<close>

theorem out_of_bounds_writes_are_no_ops:
  "(\<not> cb_in_bounds b x y \<longrightarrow> cb_setCellWithAlphaBlending b x y cp fg bg a = b)
   \<and> (\<not> cb_in_bounds b x y \<longrightarrow>
        cb_drawText b (cp # cps) x y fg bgo a = cb_drawText b cps (x + 1) y fg bgo a)
   \<and> ((\<forall>i<length cps. \<not> cb_in_bounds b (x + int i) y) \<longrightarrow> cb_drawText b cps x y fg bgo a = b)
   \<and> cb_drawText b cps x y fg bgo a =
       fold (\<lambda>(i, cp) b'. cb_drawTextCell b' (x + int i) y cp fg bgo a)
         (filter (\<lambda>(i, cp). cb_in_bounds b (x + int i) y) (enumerate 0 cps)) b
   \<and> ((\<forall>px py. cb_in_bounds b px py \<longrightarrow> \<not> rect_covers x y w h px py) \<longrightarrow>
        cb_fillRect b x y w h color = b)
   \<and> cb_fillRect b x y w h color =
       cb_fillRect b (max x 0) (max y 0)
         (min (x + w) (int (cb_width b)) - max x 0) (min (y + h) (int (cb_height b)) - max y 0) color"
proof -
  have "cb_drawText b cps x y fg bgo a = b" if "\<forall>i<length cps. \<not> cb_in_bounds b (x + int i) y"
    using that by (intro cb_drawText_outside) simp
  moreover have "cb_fillRect b x y w h color = b"
    if "\<forall>px py. cb_in_bounds b px py \<longrightarrow> \<not> rect_covers x y w h px py"
    using that by (intro cb_fillRect_outside) simp
  moreover note cb_fillRect_clip [of b x y w h color]
  moreover note cb_drawText_visible_cells [of b cps x y fg bgo a]
  ultimately show ?thesis
    by (simp add: cb_setCell_outside cb_drawTextCell_outside)
qed

theorem out_of_bounds_writes_are_no_ops_witness:
  "\<not> cb_in_bounds \<lparr>cb_width = 3, cb_height = 2, cb_respectAlpha = True,
         cb_char = replicate 6 32, cb_fg = replicate 6 (1, 1, 1, 1),
         cb_bg = replicate 6 (0, 0, 0, 1), cb_attributes = replicate 6 0\<rparr> 3 0
   \<and> cb_setCellWithAlphaBlending \<lparr>cb_width = 3, cb_height = 2, cb_respectAlpha = True,
         cb_char = replicate 6 32, cb_fg = replicate 6 (1, 1, 1, 1),
         cb_bg = replicate 6 (0, 0, 0, 1), cb_attributes = replicate 6 0\<rparr> 3 0 65 (1, 0, 0, 1) (0, 0, 1, 1) 1 =
       \<lparr>cb_width = 3, cb_height = 2, cb_respectAlpha = True,
         cb_char = replicate 6 32, cb_fg = replicate 6 (1, 1, 1, 1),
         cb_bg = replicate 6 (0, 0, 0, 1), cb_attributes = replicate 6 0\<rparr>
   \<and> cb_drawText \<lparr>cb_width = 3, cb_height = 2, cb_respectAlpha = True,
         cb_char = replicate 6 32, cb_fg = replicate 6 (1, 1, 1, 1),
         cb_bg = replicate 6 (0, 0, 0, 1), cb_attributes = replicate 6 0\<rparr> [72, 105] 3 0 (1, 0, 0, 1) None 1 =
       \<lparr>cb_width = 3, cb_height = 2, cb_respectAlpha = True,
         cb_char = replicate 6 32, cb_fg = replicate 6 (1, 1, 1, 1),
         cb_bg = replicate 6 (0, 0, 0, 1), cb_attributes = replicate 6 0\<rparr>
   \<and> cb_char (cb_drawText \<lparr>cb_width = 3, cb_height = 2, cb_respectAlpha = True,
         cb_char = replicate 6 32, cb_fg = replicate 6 (1, 1, 1, 1),
         cb_bg = replicate 6 (0, 0, 0, 1), cb_attributes = replicate 6 0\<rparr> [72, 105] (-1) 0 (1, 0, 0, 1) None 1) =
       [105, 32, 32, 32, 32, 32]
   \<and> cb_fillRect \<lparr>cb_width = 3, cb_height = 2, cb_respectAlpha = True,
         cb_char = replicate 6 32, cb_fg = replicate 6 (1, 1, 1, 1),
         cb_bg = replicate 6 (0, 0, 0, 1), cb_attributes = replicate 6 0\<rparr> 3 (-4) 5 4 (0, 1, 0, 1) =
       \<lparr>cb_width = 3, cb_height = 2, cb_respectAlpha = True,
         cb_char = replicate 6 32, cb_fg = replicate 6 (1, 1, 1, 1),
         cb_bg = replicate 6 (0, 0, 0, 1), cb_attributes = replicate 6 0\<rparr>"
proof -
  let ?b = "\<lparr>cb_width = 3, cb_height = 2, cb_respectAlpha = True,
         cb_char = replicate 6 32, cb_fg = replicate 6 (1, 1, 1, 1),
         cb_bg = replicate 6 (0, 0, 0, 1), cb_attributes = replicate 6 (0::nat)\<rparr>"
  have out: "\<not> cb_in_bounds ?b 3 0"
    by (simp add: cb_in_bounds_def)
  have text_out: "\<forall>i<length [72, 105 :: nat]. \<not> cb_in_bounds ?b (3 + int i) 0"
    by (simp add: cb_in_bounds_def)
  have rect: "\<forall>px py. cb_in_bounds ?b px py \<longrightarrow> \<not> rect_covers 3 (-4) 5 4 px py"
    by (simp add: cb_in_bounds_def rect_covers_def)
  from out_of_bounds_writes_are_no_ops
         [of ?b 3 0 65 "(1, 0, 0, 1)" "(0, 0, 1, 1)" 1 "[72, 105]" None 5 4 "(0, 1, 0, 1)"]
  have "cb_setCellWithAlphaBlending ?b 3 0 65 (1, 0, 0, 1) (0, 0, 1, 1) 1 = ?b"
    using out by blast
  moreover
  from out_of_bounds_writes_are_no_ops
         [of ?b 3 0 65 "(1, 0, 0, 1)" "(0, 0, 1, 1)" 1 "[72, 105]" None 5 4 "(0, 1, 0, 1)"]
  have "cb_drawText ?b [72, 105] 3 0 (1, 0, 0, 1) None 1 = ?b"
    using text_out by blast
  moreover
  from out_of_bounds_writes_are_no_ops
         [of ?b 3 "-4" 65 "(1, 0, 0, 1)" "(0, 0, 1, 1)" 1 "[72, 105]" None 5 4 "(0, 1, 0, 1)"]
  have "cb_fillRect ?b 3 (-4) 5 4 (0, 1, 0, 1) = ?b"
    using rect by blast
  moreover
  have left: "\<not> cb_in_bounds ?b (-1) 0"
    by (simp add: cb_in_bounds_def)
  from out_of_bounds_writes_are_no_ops
         [of ?b "-1" 0 72 "(1, 0, 0, 1)" "(0, 0, 1, 1)" 1 "[105]" None 5 4 "(0, 1, 0, 1)"]
  have "cb_drawText ?b [72, 105] (-1) 0 (1, 0, 0, 1) None 1 = cb_drawText ?b [105] 0 0 (1, 0, 0, 1) None 1"
    using left by simp
  then have "cb_char (cb_drawText ?b [72, 105] (-1) 0 (1, 0, 0, 1) None 1) = [105, 32, 32, 32, 32, 32]"
    by (simp add: cb_drawTextCell_def cb_in_bounds_def cb_index_def numeral_eq_Suc)
  ultimately show ?thesis using out by simp
qed

end
